theory Spec2Isabelle
  imports Complex_Main
begin

section \<open>JavaScript values used by the server\<close>

text \<open>
  The server (\<^verbatim>\<open>src/index.ts\<close>) is a single request handler around three libraries:
  \<^verbatim>\<open>fs/promises\<close>, \<^verbatim>\<open>jsonwebtoken\<close> and \<^verbatim>\<open>axios\<close>. The handler is embedded
  as a function of the configuration, of the world at the time of the call (file system,
  clock, key check of the signing library, HTTP adapter) and of the request. It returns
  what the handler returns or throws, together with the list of effects it performed.

  A decoded JSON document is a value of \<open>json\<close>. The handler never computes with the numbers
  of a decoded body, it only prints them, so a number is kept as the decimal text that
  JavaScript prints for it. An object is an association list in property order, with
  distinct keys.
\<close>

datatype json =
    JNull
  | JBool bool
  | JNum string
  | JStr string
  | JArr "json list"
  | JObj "(string \<times> json) list"

text \<open>\<^verbatim>\<open>Array.prototype.join\<close> on an array of strings.\<close>

fun join :: "string \<Rightarrow> string list \<Rightarrow> string" where
  "join sep [] = []"
| "join sep [x] = x"
| "join sep (x # y # ys) = x @ sep @ join sep (y # ys)"

text \<open>
  \<^verbatim>\<open>ToString\<close>, as a template literal applies it to a decoded JSON value; \<open>None\<close> is the
  \<^verbatim>\<open>TypeError\<close> that the conversion throws.
  \<^item> An object is converted by its \<^verbatim>\<open>toString\<close> method. A decoded object that has a
    property of its own named \<^verbatim>\<open>toString\<close> hides the method of the prototype by a value
    that cannot be called, and \<^verbatim>\<open>valueOf\<close> gives no primitive either: the conversion
    throws. Every other decoded object prints as \<^verbatim>\<open>[object Object]\<close>.
  \<^item> An array is converted by \<^verbatim>\<open>join\<close>: an element that is \<^verbatim>\<open>null\<close> prints as the empty
    string, every other element by \<^verbatim>\<open>ToString\<close>, whose exception is the exception of the
    whole conversion.
\<close>

fun toString :: "json \<Rightarrow> string option" where
  "toString JNull = Some ''null''"
| "toString (JBool b) = Some (if b then ''true'' else ''false'')"
| "toString (JNum t) = Some t"
| "toString (JStr s) = Some s"
| "toString (JArr xs) =
     map_option (join '','') (those (map (\<lambda>x. if x = JNull then Some [] else toString x) xs))"
| "toString (JObj kvs) =
     (case map_of kvs ''toString'' of None \<Rightarrow> Some ''[object Object]'' | Some v \<Rightarrow> None)"

text \<open>
  Property access on a value that is neither \<^verbatim>\<open>undefined\<close> nor \<^verbatim>\<open>null\<close>:
  \<open>None\<close> is \<^verbatim>\<open>undefined\<close>. \<open>get_prop\<close> reads a property whose name is not an index and
  not \<^verbatim>\<open>length\<close>; \<open>get_index0\<close> reads \<^verbatim>\<open>[0]\<close>.
\<close>

fun get_prop :: "string \<Rightarrow> json \<Rightarrow> json option" where
  "get_prop k (JObj kvs) = map_of kvs k"
| "get_prop k v = None"

fun get_index0 :: "json \<Rightarrow> json option" where
  "get_index0 (JArr xs) = (case xs of [] \<Rightarrow> None | x # rest \<Rightarrow> Some x)"
| "get_index0 (JStr s) = (case s of [] \<Rightarrow> None | c # rest \<Rightarrow> Some (JStr [c]))"
| "get_index0 (JObj kvs) = map_of kvs ''0''"
| "get_index0 v = None"

text \<open>Optional chaining \<^verbatim>\<open>v?.p\<close>: \<^verbatim>\<open>undefined\<close> when \<open>v\<close> is \<^verbatim>\<open>undefined\<close> or \<^verbatim>\<open>null\<close>.\<close>

fun opt_chain :: "(json \<Rightarrow> json option) \<Rightarrow> json option \<Rightarrow> json option" where
  "opt_chain f None = None"
| "opt_chain f (Some JNull) = None"
| "opt_chain f (Some v) = f v"

subsection \<open>\<^verbatim>\<open>JSON.stringify\<close>\<close>

definition hex_digit :: "nat \<Rightarrow> char" where
  "hex_digit n = ''0123456789abcdef'' ! (n mod 16)"

text \<open>\<^verbatim>\<open>QuoteJSONString\<close> on one code unit; strings are byte strings (UTF-8).\<close>

definition escape_char :: "char \<Rightarrow> string" where
  "escape_char c =
     (if c = CHR 0x22 then [CHR 0x5C, CHR 0x22]
      else if c = CHR 0x5C then [CHR 0x5C, CHR 0x5C]
      else if c = CHR 0x08 then [CHR 0x5C, CHR ''b'']
      else if c = CHR 0x09 then [CHR 0x5C, CHR ''t'']
      else if c = CHR 0x0A then [CHR 0x5C, CHR ''n'']
      else if c = CHR 0x0C then [CHR 0x5C, CHR ''f'']
      else if c = CHR 0x0D then [CHR 0x5C, CHR ''r'']
      else if (of_char c :: nat) < 32
        then [CHR 0x5C, CHR ''u'', CHR ''0'', CHR ''0'',
              hex_digit (of_char c div 16), hex_digit (of_char c)]
      else [c])"

definition quote :: "string \<Rightarrow> string" where
  "quote s = [CHR 0x22] @ concat (map escape_char s) @ [CHR 0x22]"

text \<open>
  \<^verbatim>\<open>SerializeJSONProperty\<close> with the gap string \<open>gap\<close> and the current indentation
  \<open>ind\<close>. A decoded JSON document holds no \<^verbatim>\<open>undefined\<close>, function or symbol, so
  no property is skipped.
\<close>

fun stringify :: "string \<Rightarrow> string \<Rightarrow> json \<Rightarrow> string" where
  "stringify gap ind JNull = ''null''"
| "stringify gap ind (JBool b) = (if b then ''true'' else ''false'')"
| "stringify gap ind (JNum t) = t"
| "stringify gap ind (JStr s) = quote s"
| "stringify gap ind (JArr xs) =
     (if xs = [] then ''[]''
      else if gap = [] then ''['' @ join '','' (map (stringify gap (ind @ gap)) xs) @ '']''
      else ''['' @ [CHR 0x0A] @ (ind @ gap)
           @ join ('','' @ [CHR 0x0A] @ (ind @ gap)) (map (stringify gap (ind @ gap)) xs)
           @ [CHR 0x0A] @ ind @ '']'')"
| "stringify gap ind (JObj kvs) =
     (if kvs = [] then ''{}''
      else if gap = [] then
        ''{'' @ join '',''
          (map (\<lambda>kv. quote (fst kv) @ '':'' @ stringify gap (ind @ gap) (snd kv)) kvs) @ ''}''
      else ''{'' @ [CHR 0x0A] @ (ind @ gap)
           @ join ('','' @ [CHR 0x0A] @ (ind @ gap))
               (map (\<lambda>kv. quote (fst kv) @ '': '' @ stringify gap (ind @ gap) (snd kv)) kvs)
           @ [CHR 0x0A] @ ind @ ''}'')"

text \<open>\<^verbatim>\<open>JSON.stringify(value, null, 2)\<close> and \<^verbatim>\<open>JSON.stringify(value)\<close>.\<close>

definition JSON_stringify2 :: "json \<Rightarrow> string" where
  "JSON_stringify2 v = stringify ''  '' [] v"

definition JSON_stringify0 :: "json \<Rightarrow> string" where
  "JSON_stringify0 v = stringify [] [] v"

section \<open>Configuration, failures, requests and the world\<close>

text \<open>\<^verbatim>\<open>AppStoreConnectConfig\<close>, filled from the environment when the process starts.\<close>

record config =
  keyId :: string
  issuerId :: string
  privateKeyPath :: string

text \<open>
  What the handler can throw. \<open>McpError\<close> carries the error code and the message given to
  its constructor. \<open>FsError\<close> is the rejection of \<^verbatim>\<open>fs.readFile\<close> for the given path,
  \<open>JwtError\<close> the exception of \<^verbatim>\<open>jwt.sign\<close>, and \<open>TypeError\<close> the exception of the
  JavaScript engine for destructuring \<^verbatim>\<open>undefined\<close> or calling what is not a function.
\<close>

datatype error_code = InvalidParams | MethodNotFound | InternalError

datatype failure =
    McpError error_code string
  | FsError string
  | JwtError
  | TypeError

text \<open>
  The signed token. The signature is abstracted to \<open>jwt_key\<close>, the key material that
  signed it. The time claims are in seconds.
\<close>

record jwt =
  jwt_alg :: string
  jwt_kid :: string
  jwt_iss :: string
  jwt_aud :: string
  jwt_iat :: nat
  jwt_exp :: nat
  jwt_key :: string

text \<open>The options object of \<^verbatim>\<open>jwt.sign\<close>, with the fields the server sets.\<close>

record sign_options =
  algorithm :: string
  expiresIn :: string
  audience :: string
  keyid :: string
  issuer :: string

text \<open>
  The \<^verbatim>\<open>params\<close> object given to axios. A value is a number, a string, a boolean, an
  array of strings, or \<^verbatim>\<open>undefined\<close> (axios leaves such a key out of the query string).
\<close>

datatype param_value =
    PNum real
  | PStr string
  | PBool bool
  | PArr "string list"
  | PUndefined

datatype http_verb = GET | POST | DELETE

datatype header_value = Bearer jwt | Literal string

record http_request =
  verb :: http_verb
  url :: string
  headers :: "(string \<times> header_value) list"
  params :: "string \<rightharpoonup> param_value"
  body :: "json option"

text \<open>
  A response as the HTTP adapter of axios yields it: its status, the bytes of its body
  (\<open>raw\<close>) and the body as axios decodes it (\<open>data\<close>, which is what the handler reads). The
  handler never reads \<open>raw\<close>, and the decoding is the library's: the two fields are given
  together by the world.
\<close>

record http_response =
  status :: nat
  raw :: string
  data :: json

text \<open>
  What the adapter yields for a request: the final response (the adapter follows the
  redirects of the service itself, as the axios instance of the server leaves
  \<^verbatim>\<open>maxRedirects\<close> at its default), or the failure of the transport with its message.
\<close>

datatype http_reply = Reply http_response | NoReply string

text \<open>\<^verbatim>\<open>AxiosError\<close>: its message and, when the service answered, the response.\<close>

record axios_error =
  message :: string
  response :: "http_response option"

text \<open>The effects of a call, in the order they happen.\<close>

datatype event = ReadFile string | HttpSent http_request

text \<open>
  The world at the time of a call: the files that can be read (path to UTF-8 content), the
  clock (\<^verbatim>\<open>Date.now()\<close>, in milliseconds), whether the signing library accepts a key
  material for an algorithm, and the HTTP adapter of axios with the upstream service behind
  it.
\<close>

record world =
  files :: "string \<rightharpoonup> string"
  clock_ms :: nat
  key_accepted :: "string \<Rightarrow> string \<Rightarrow> bool"
  adapter :: "http_request \<Rightarrow> http_reply"

section \<open>Credential issuer\<close>

definition digit_value :: "char \<Rightarrow> nat" where
  "digit_value c = of_char c - 48"

definition is_digit :: "char \<Rightarrow> bool" where
  "is_digit c = (c \<in> set ''0123456789'')"

text \<open>
  The time span parser of \<^verbatim>\<open>jsonwebtoken\<close> (package \<^verbatim>\<open>ms\<close>), for the forms
  \<^verbatim>\<open><digits><unit>\<close> with the units s, m, h and d: the span in milliseconds. The server
  passes the constant \<^verbatim>\<open>'20m'\<close>.
\<close>

definition ms :: "string \<Rightarrow> nat option" where
  "ms s =
     (let ds = takeWhile is_digit s;
          u = dropWhile is_digit s;
          n = foldl (\<lambda>a c. 10 * a + digit_value c) 0 ds
      in if ds = [] then None
         else if u = ''s'' then Some (n * 1000)
         else if u = ''m'' then Some (n * 60 * 1000)
         else if u = ''h'' then Some (n * 60 * 60 * 1000)
         else if u = ''d'' then Some (n * 24 * 60 * 60 * 1000)
         else None)"

text \<open>
  \<^verbatim>\<open>jwt.sign({}, privateKey, options)\<close>: the library throws when the key material does
  not fit the algorithm or the time span does not parse; otherwise \<^verbatim>\<open>iat\<close> is the clock
  in whole seconds and \<^verbatim>\<open>exp\<close> is \<^verbatim>\<open>iat\<close> plus the span in seconds.
\<close>

definition jwt_sign :: "world \<Rightarrow> string \<Rightarrow> sign_options \<Rightarrow> failure + jwt" where
  "jwt_sign w privateKey options =
     (if \<not> key_accepted w (algorithm options) privateKey then Inl JwtError
      else case ms (expiresIn options) of
        None \<Rightarrow> Inl JwtError
      | Some millis \<Rightarrow>
          (let timestamp = clock_ms w div 1000
           in Inr \<lparr>jwt_alg = algorithm options, jwt_kid = keyid options,
                  jwt_iss = issuer options, jwt_aud = audience options,
                  jwt_iat = timestamp, jwt_exp = timestamp + millis div 1000,
                  jwt_key = privateKey\<rparr>))"

text \<open>
  \<^verbatim>\<open>generateToken\<close>: reads the key file named by the configuration, then signs. The
  function has no other input than the configuration and the world of this call.
\<close>

definition generateToken :: "config \<Rightarrow> world \<Rightarrow> (failure + jwt) \<times> event list" where
  "generateToken cfg w =
     (case files w (privateKeyPath cfg) of
        None \<Rightarrow> (Inl (FsError (privateKeyPath cfg)), [ReadFile (privateKeyPath cfg)])
      | Some privateKey \<Rightarrow>
          (jwt_sign w privateKey
             \<lparr>algorithm = ''ES256'', expiresIn = ''20m'', audience = ''appstoreconnect-v1'',
              keyid = keyId cfg, issuer = issuerId cfg\<rparr>,
           [ReadFile (privateKeyPath cfg)]))"

section \<open>Tool invocations\<close>

text \<open>
  The arguments of a call, at the types the handler declares for them when it destructures
  \<^verbatim>\<open>request.params.arguments\<close>. Every argument can be left out (\<open>None\<close>). The handler
  declares \<^verbatim>\<open>sort\<close> as a string for \<^verbatim>\<open>list_users\<close> and as an array of strings for the
  two review tools, so a \<^verbatim>\<open>sort\<close> is one or the other. The fields \<open>include_arg\<close>,
  \<open>sort_arg\<close> and \<open>filter_arg\<close> are the arguments \<^verbatim>\<open>include\<close>, \<^verbatim>\<open>sort\<close> and
  \<^verbatim>\<open>filter\<close>.
\<close>

datatype sort_value = SortString string | SortArray "string list"

record users_filter =
  username :: "string option"
  roles :: "string list option"
  visibleApps :: "string list option"

record tool_arguments =
  appId :: "string option"
  versionId :: "string option"
  reviewId :: "string option"
  responseBody :: "string option"
  responseId :: "string option"
  limit :: "real option"
  include_arg :: "string list option"
  sort_arg :: "sort_value option"
  filter_arg :: "users_filter option"
  filterTerritory :: "string list option"
  filterRating :: "string list option"
  existsPublishedResponse :: "bool option"
  fieldsCustomerReviews :: "string list option"
  fieldsCustomerReviewResponses :: "string list option"

text \<open>\<^verbatim>\<open>request.params\<close>: the tool name and the arguments, which the protocol lets a caller omit.\<close>

record call_request =
  name :: string
  arguments :: "tool_arguments option"

text \<open>The result of a tool: \<^verbatim>\<open>{content: [{type: 'text', text: ...}]}\<close>.\<close>

datatype content_item = TextItem string

record tool_result =
  content :: "content_item list"

definition text_result :: "string \<Rightarrow> tool_result" where
  "text_result t = \<lparr>content = [TextItem t]\<rparr>"

text \<open>The empty arguments object \<^verbatim>\<open>{}\<close>.\<close>

definition no_arguments :: tool_arguments where
  "no_arguments =
     \<lparr>appId = None, versionId = None, reviewId = None, responseBody = None, responseId = None,
      limit = None, include_arg = None, sort_arg = None, filter_arg = None,
      filterTerritory = None, filterRating = None, existsPublishedResponse = None,
      fieldsCustomerReviews = None, fieldsCustomerReviewResponses = None\<rparr>"

text \<open>
  A string argument that passes the test \<^verbatim>\<open>if (!x) throw ...\<close>: it is there and it is not
  the empty string.
\<close>

definition truthy_string :: "string option \<Rightarrow> string option" where
  "truthy_string v = (case v of None \<Rightarrow> None | Some s \<Rightarrow> if s = [] then None else Some s)"

text \<open>
  \<^verbatim>\<open>if (xs?.length) params[k] = xs.join(",")\<close> for an argument declared as an array of
  strings.
\<close>

definition set_joined ::
  "string \<Rightarrow> string list option \<Rightarrow> (string \<rightharpoonup> param_value) \<Rightarrow> (string \<rightharpoonup> param_value)" where
  "set_joined k v ps =
     (case v of None \<Rightarrow> ps | Some xs \<Rightarrow> if xs = [] then ps else ps(k \<mapsto> PStr (join '','' xs)))"

text \<open>\<^verbatim>\<open>request.params.arguments?.limit || 100\<close>.\<close>

definition limit_or_100 :: "tool_arguments option \<Rightarrow> real" where
  "limit_or_100 args =
     (case args of
        None \<Rightarrow> 100
      | Some a \<Rightarrow> (case limit a of None \<Rightarrow> 100 | Some l \<Rightarrow> if l = 0 then 100 else l))"

text \<open>What the success branch of every tool but one returns: the decoded body, printed again.\<close>

definition relay_json :: "http_response \<Rightarrow> tool_result" where
  "relay_json r = text_result (JSON_stringify2 (data r))"

type_synonym prepared = "http_request \<times> (http_response \<Rightarrow> tool_result)"

subsection \<open>The cases of the switch, up to the HTTP call\<close>

text \<open>
  Each case gives the exception it throws before any HTTP call, or the request it sends and
  what it makes of the response.
\<close>

definition call_list_apps :: "jwt \<Rightarrow> tool_arguments option \<Rightarrow> failure + prepared" where
  "call_list_apps token args =
     Inr (\<lparr>verb = GET, url = ''/apps'',
           headers = [(''Authorization'', Bearer token)],
           params = [''limit'' \<mapsto> PNum (limit_or_100 args)],
           body = None\<rparr>, relay_json)"

definition call_list_beta_groups :: "jwt \<Rightarrow> tool_arguments option \<Rightarrow> failure + prepared" where
  "call_list_beta_groups token args =
     Inr (\<lparr>verb = GET, url = ''/betaGroups'',
           headers = [(''Authorization'', Bearer token)],
           params = [''limit'' \<mapsto> PNum (limit_or_100 args),
                     ''include'' \<mapsto> PStr ''app,betaTesters''],
           body = None\<rparr>, relay_json)"

definition call_get_app_info :: "jwt \<Rightarrow> tool_arguments option \<Rightarrow> failure + prepared" where
  "call_get_app_info token args =
     (case args of
        None \<Rightarrow> Inl TypeError
      | Some a \<Rightarrow>
          (case truthy_string (appId a) of
             None \<Rightarrow> Inl (McpError InvalidParams ''appId is required'')
           | Some app \<Rightarrow>
               Inr (\<lparr>verb = GET, url = ''/apps/'' @ app,
                     headers = [(''Authorization'', Bearer token)],
                     params = [''include'' \<mapsto>
                       (case include_arg a of
                          None \<Rightarrow> PUndefined
                        | Some xs \<Rightarrow> PStr (join '','' xs))],
                     body = None\<rparr>, relay_json)))"

text \<open>The \<^verbatim>\<open>params\<close> of \<^verbatim>\<open>list_users\<close>, in the order the handler fills them.\<close>

definition users_params :: "tool_arguments \<Rightarrow> (string \<rightharpoonup> param_value)" where
  "users_params a =
     (let p0 = [''limit'' \<mapsto> PNum (min (case limit a of None \<Rightarrow> 100 | Some l \<Rightarrow> l) 200)];
          p1 = (case sort_arg a of
                  None \<Rightarrow> p0
                | Some (SortString s) \<Rightarrow> if s = [] then p0 else p0(''sort'' \<mapsto> PStr s)
                | Some (SortArray xs) \<Rightarrow> p0(''sort'' \<mapsto> PArr xs));
          p2 = (case filter_arg a of
                  None \<Rightarrow> p1
                | Some f \<Rightarrow>
                    set_joined ''filter[visibleApps]'' (visibleApps f)
                      (set_joined ''filter[roles]'' (roles f)
                        (case truthy_string (username f) of
                           None \<Rightarrow> p1
                         | Some u \<Rightarrow> p1(''filter[username]'' \<mapsto> PStr u))))
      in set_joined ''include'' (include_arg a) p2)"

definition call_list_users :: "jwt \<Rightarrow> tool_arguments option \<Rightarrow> failure + prepared" where
  "call_list_users token args =
     (let a = (case args of None \<Rightarrow> no_arguments | Some a \<Rightarrow> a)
      in Inr (\<lparr>verb = GET, url = ''/users'',
               headers = [(''Authorization'', Bearer token)],
               params = users_params a,
               body = None\<rparr>, relay_json))"

text \<open>
  The statement \<^verbatim>\<open>if (sort?.length) params["sort"] = sort.join(",")\<close> of the two review
  tools: the value it stores, if any. A \<^verbatim>\<open>sort\<close> that is a non-empty string has a
  \<^verbatim>\<open>length\<close> but no \<^verbatim>\<open>join\<close>, and the statement throws.
\<close>

definition review_sort :: "sort_value option \<Rightarrow> failure + string option" where
  "review_sort v =
     (case v of
        None \<Rightarrow> Inr None
      | Some (SortArray xs) \<Rightarrow> Inr (if xs = [] then None else Some (join '','' xs))
      | Some (SortString s) \<Rightarrow> if s = [] then Inr None else Inl TypeError)"

text \<open>
  The \<^verbatim>\<open>params\<close> of the two review tools, which fill them with the same statements,
  here for the value \<open>sort_text\<close> that the statement for \<^verbatim>\<open>sort\<close> stores.
\<close>

definition review_query :: "tool_arguments \<Rightarrow> string option \<Rightarrow> (string \<rightharpoonup> param_value)" where
  "review_query a sort_text =
     (let p1 = set_joined ''filter[territory]'' (filterTerritory a) Map.empty;
          p2 = set_joined ''filter[rating]'' (filterRating a) p1;
          p3 = (case existsPublishedResponse a of
                  None \<Rightarrow> p2
                | Some b \<Rightarrow> p2(''exists[publishedResponse]'' \<mapsto> PBool b));
          p4 = (case sort_text of None \<Rightarrow> p3 | Some v \<Rightarrow> p3(''sort'' \<mapsto> PStr v));
          p5 = set_joined ''fields[customerReviews]'' (fieldsCustomerReviews a) p4;
          p6 = set_joined ''fields[customerReviewResponses]''
                 (fieldsCustomerReviewResponses a) p5;
          p7 = (case limit a of
                  None \<Rightarrow> p6
                | Some l \<Rightarrow> p6(''limit'' \<mapsto> PNum (min l 200)))
      in set_joined ''include'' (include_arg a) p7)"

text \<open>
  No statement before the one for \<^verbatim>\<open>sort\<close> has an effect, so its exception is taken
  first.
\<close>

definition review_params :: "tool_arguments \<Rightarrow> failure + (string \<rightharpoonup> param_value)" where
  "review_params a =
     (case review_sort (sort_arg a) of
        Inl e \<Rightarrow> Inl e
      | Inr sort_text \<Rightarrow> Inr (review_query a sort_text))"

definition call_list_customer_reviews ::
  "jwt \<Rightarrow> tool_arguments option \<Rightarrow> failure + prepared" where
  "call_list_customer_reviews token args =
     (case args of
        None \<Rightarrow> Inl TypeError
      | Some a \<Rightarrow>
          (case truthy_string (appId a) of
             None \<Rightarrow> Inl (McpError InvalidParams ''appId is required'')
           | Some app \<Rightarrow>
               (case review_params a of
                  Inl e \<Rightarrow> Inl e
                | Inr ps \<Rightarrow>
                    Inr (\<lparr>verb = GET, url = ''/apps/'' @ app @ ''/customerReviews'',
                          headers = [(''Authorization'', Bearer token)],
                          params = ps, body = None\<rparr>, relay_json))))"

definition call_list_customer_reviews_for_version ::
  "jwt \<Rightarrow> tool_arguments option \<Rightarrow> failure + prepared" where
  "call_list_customer_reviews_for_version token args =
     (case args of
        None \<Rightarrow> Inl TypeError
      | Some a \<Rightarrow>
          (case truthy_string (versionId a) of
             None \<Rightarrow> Inl (McpError InvalidParams ''versionId is required'')
           | Some version \<Rightarrow>
               (case review_params a of
                  Inl e \<Rightarrow> Inl e
                | Inr ps \<Rightarrow>
                    Inr (\<lparr>verb = GET,
                          url = ''/appStoreVersions/'' @ version @ ''/customerReviews'',
                          headers = [(''Authorization'', Bearer token)],
                          params = ps, body = None\<rparr>, relay_json))))"

text \<open>The request body of \<^verbatim>\<open>create_customer_review_response\<close>.\<close>

definition create_body :: "string \<Rightarrow> string \<Rightarrow> json" where
  "create_body review reply =
     JObj [(''data'', JObj
       [(''type'', JStr ''customerReviewResponses''),
        (''attributes'', JObj [(''responseBody'', JStr reply)]),
        (''relationships'', JObj
          [(''review'', JObj
            [(''data'', JObj [(''id'', JStr review), (''type'', JStr ''customerReviews'')])])])])]"

definition call_create_customer_review_response ::
  "jwt \<Rightarrow> tool_arguments option \<Rightarrow> failure + prepared" where
  "call_create_customer_review_response token args =
     (case args of
        None \<Rightarrow> Inl TypeError
      | Some a \<Rightarrow>
          (case (truthy_string (reviewId a), truthy_string (responseBody a)) of
             (Some review, Some reply) \<Rightarrow>
               Inr (\<lparr>verb = POST, url = ''/customerReviewResponses'',
                     headers = [(''Authorization'', Bearer token),
                                (''Content-Type'', Literal ''application/json'')],
                     params = Map.empty, body = Some (create_body review reply)\<rparr>, relay_json)
           | _ \<Rightarrow> Inl (McpError InvalidParams ''reviewId and responseBody are required'')))"

definition call_delete_customer_review_response ::
  "jwt \<Rightarrow> tool_arguments option \<Rightarrow> failure + prepared" where
  "call_delete_customer_review_response token args =
     (case args of
        None \<Rightarrow> Inl TypeError
      | Some a \<Rightarrow>
          (case truthy_string (responseId a) of
             None \<Rightarrow> Inl (McpError InvalidParams ''responseId is required'')
           | Some rid \<Rightarrow>
               Inr (\<lparr>verb = DELETE, url = ''/customerReviewResponses/'' @ rid,
                     headers = [(''Authorization'', Bearer token)],
                     params = Map.empty, body = None\<rparr>,
                    \<lambda>r. text_result
                      (''Customer review response '' @ rid @ '' deleted successfully.''))))"

definition call_get_customer_review_response ::
  "jwt \<Rightarrow> tool_arguments option \<Rightarrow> failure + prepared" where
  "call_get_customer_review_response token args =
     (case args of
        None \<Rightarrow> Inl TypeError
      | Some a \<Rightarrow>
          (case truthy_string (reviewId a) of
             None \<Rightarrow> Inl (McpError InvalidParams ''reviewId is required'')
           | Some review \<Rightarrow>
               Inr (\<lparr>verb = GET, url = ''/customerReviews/'' @ review @ ''/response'',
                     headers = [(''Authorization'', Bearer token)],
                     params = Map.empty, body = None\<rparr>, relay_json)))"

text \<open>The \<^verbatim>\<open>switch (name)\<close>, with its cases in the order of the source.\<close>

definition switch :: "jwt \<Rightarrow> call_request \<Rightarrow> failure + prepared" where
  "switch token request =
     (if name request = ''list_apps'' then call_list_apps token (arguments request)
      else if name request = ''list_beta_groups''
        then call_list_beta_groups token (arguments request)
      else if name request = ''get_app_info'' then call_get_app_info token (arguments request)
      else if name request = ''list_users'' then call_list_users token (arguments request)
      else if name request = ''list_customer_reviews''
        then call_list_customer_reviews token (arguments request)
      else if name request = ''list_customer_reviews_for_version''
        then call_list_customer_reviews_for_version token (arguments request)
      else if name request = ''create_customer_review_response''
        then call_create_customer_review_response token (arguments request)
      else if name request = ''delete_customer_review_response''
        then call_delete_customer_review_response token (arguments request)
      else if name request = ''get_customer_review_response''
        then call_get_customer_review_response token (arguments request)
      else Inl (McpError MethodNotFound (''Unknown tool: '' @ name request)))"

subsection \<open>The HTTP exchange and the handler\<close>

fun show_nat :: "nat \<Rightarrow> string" where
  "show_nat n =
     (if n < 10 then [''0123456789'' ! n]
      else show_nat (n div 10) @ [''0123456789'' ! (n mod 10)])"

declare show_nat.simps [simp del]

text \<open>
  An axios call: the adapter performs the request, and axios resolves with its response when
  the status is 2xx (the default \<^verbatim>\<open>validateStatus\<close>) and rejects with an \<^verbatim>\<open>AxiosError\<close>
  otherwise, also when the transport fails.
\<close>

definition axios_request :: "world \<Rightarrow> http_request \<Rightarrow> axios_error + http_response" where
  "axios_request w q =
     (case adapter w q of
        NoReply msg \<Rightarrow> Inl \<lparr>message = msg, response = None\<rparr>
      | Reply r \<Rightarrow>
          if 200 \<le> status r \<and> status r < 300 then Inr r
          else Inl \<lparr>message = ''Request failed with status code '' @ show_nat (status r),
                    response = Some r\<rparr>)"

text \<open>\<^verbatim>\<open>error.response?.data?.errors?.[0]?.detail\<close>.\<close>

definition first_detail :: "axios_error \<Rightarrow> json option" where
  "first_detail err =
     opt_chain (get_prop ''detail'')
       (opt_chain get_index0
         (opt_chain (get_prop ''errors'')
           (case response err of None \<Rightarrow> None | Some r \<Rightarrow> Some (data r))))"

text \<open>
  \<^verbatim>\<open>${... ?? error.message}\<close>: the detail unless it is \<^verbatim>\<open>undefined\<close> or \<^verbatim>\<open>null\<close>,
  converted to a string; \<open>None\<close> when the conversion throws.
\<close>

definition detail_or_message :: "axios_error \<Rightarrow> string option" where
  "detail_or_message err =
     (case first_detail err of
        None \<Rightarrow> Some (message err)
      | Some JNull \<Rightarrow> Some (message err)
      | Some d \<Rightarrow> toString d)"

text \<open>
  What the \<^verbatim>\<open>catch\<close> block throws for an \<^verbatim>\<open>AxiosError\<close>: the \<^verbatim>\<open>McpError\<close> that it
  builds, or the \<^verbatim>\<open>TypeError\<close> of the template literal in its message.
\<close>

definition catch_axios :: "axios_error \<Rightarrow> failure" where
  "catch_axios err =
     (case detail_or_message err of
        None \<Rightarrow> TypeError
      | Some t \<Rightarrow> McpError InternalError (''App Store Connect API error: '' @ t))"

text \<open>
  The handler of \<^verbatim>\<open>CallToolRequestSchema\<close>. The token is generated first, then the
  switch runs. The \<^verbatim>\<open>catch\<close> block handles an \<^verbatim>\<open>AxiosError\<close> and throws every other
  exception again.
\<close>

definition handler :: "config \<Rightarrow> world \<Rightarrow> call_request \<Rightarrow> (failure + tool_result) \<times> event list" where
  "handler cfg w request =
     (case generateToken cfg w of
        (Inl e, evs) \<Rightarrow> (Inl e, evs)
      | (Inr token, evs) \<Rightarrow>
          (case switch token request of
             Inl e \<Rightarrow> (Inl e, evs)
           | Inr (q, render) \<Rightarrow>
               (case axios_request w q of
                  Inl err \<Rightarrow> (Inl (catch_axios err), evs @ [HttpSent q])
                | Inr r \<Rightarrow> (Inr (render r), evs @ [HttpSent q]))))"

text \<open>The requests among the effects of a call.\<close>

fun sent :: "event list \<Rightarrow> http_request list" where
  "sent [] = []"
| "sent (ReadFile p # evs) = sent evs"
| "sent (HttpSent q # evs) = q # sent evs"


section \<open>The tool registry\<close>

text \<open>
  An entry of the list that the handler of \<^verbatim>\<open>ListToolsRequestSchema\<close> returns. The input
  schema is the object literal of the source, as a JSON value.
\<close>

record tool =
  tool_name :: string
  description :: string
  inputSchema :: json

definition tool_list_apps :: tool where
  "tool_list_apps =
     \<lparr>tool_name = ''list_apps'',
      description = ''Get a list of all apps in App Store Connect'',
      inputSchema = JObj
          [(''type'', JStr ''object''),
           (''properties'', JObj
             [(''limit'', JObj
                [(''type'', JStr ''number''),
                 (''description'', JStr ''Maximum number of apps to return (default: 100)''),
                 (''minimum'', JNum ''1''),
                 (''maximum'', JNum ''200'')])])]\<rparr>"

definition tool_get_app_info :: tool where
  "tool_get_app_info =
     \<lparr>tool_name = ''get_app_info'',
      description = ''Get detailed information about a specific app'',
      inputSchema = JObj
          [(''type'', JStr ''object''),
           (''properties'', JObj
             [(''appId'', JObj
                [(''type'', JStr ''string''),
                 (''description'', JStr ''The ID of the app to get information for'')]),
              (''include'', JObj
                [(''type'', JStr ''array''),
                 (''items'', JObj
                   [(''type'', JStr ''string''),
                    (''enum'', JArr
                      [JStr ''appClips'',
                       JStr ''appInfos'',
                       JStr ''appStoreVersions'',
                       JStr ''availableTerritories'',
                       JStr ''betaAppReviewDetail'',
                       JStr ''betaGroups'',
                       JStr ''betaLicenseAgreement'',
                       JStr ''builds'',
                       JStr ''endUserLicenseAgreement'',
                       JStr ''gameCenterEnabledVersions'',
                       JStr ''inAppPurchases'',
                       JStr ''preOrder'',
                       JStr ''prices'',
                       JStr ''reviewSubmissions''])]),
                 (''description'', JStr ''Optional relationships to include in the response'')])]),
           (''required'', JArr [JStr ''appId''])]\<rparr>"

definition tool_list_users :: tool where
  "tool_list_users =
     \<lparr>tool_name = ''list_users'',
      description = ''Get a list of all users registered on your App Store Connect team'',
      inputSchema = JObj
          [(''type'', JStr ''object''),
           (''properties'', JObj
             [(''limit'', JObj
                [(''type'', JStr ''number''),
                 (''description'', JStr ''Maximum number of users to return (default: 100, max: 200)''),
                 (''minimum'', JNum ''1''),
                 (''maximum'', JNum ''200'')]),
              (''sort'', JObj
                [(''type'', JStr ''string''),
                 (''description'', JStr ''Sort order for the results''),
                 (''enum'', JArr
                   [JStr ''username'',
                    JStr ''-username'',
                    JStr ''firstName'',
                    JStr ''-firstName'',
                    JStr ''lastName'',
                    JStr ''-lastName'',
                    JStr ''roles'',
                    JStr ''-roles''])]),
              (''filter'', JObj
                [(''type'', JStr ''object''),
                 (''properties'', JObj
                   [(''username'', JObj
                      [(''type'', JStr ''string''),
                       (''description'', JStr ''Filter by username'')]),
                    (''roles'', JObj
                      [(''type'', JStr ''array''),
                       (''items'', JObj
                         [(''type'', JStr ''string''),
                          (''enum'', JArr
                            [JStr ''ADMIN'',
                             JStr ''FINANCE'',
                             JStr ''TECHNICAL'',
                             JStr ''SALES'',
                             JStr ''MARKETING'',
                             JStr ''DEVELOPER'',
                             JStr ''ACCOUNT_HOLDER'',
                             JStr ''READ_ONLY'',
                             JStr ''APP_MANAGER'',
                             JStr ''ACCESS_TO_REPORTS'',
                             JStr ''CUSTOMER_SUPPORT''])]),
                       (''description'', JStr ''Filter by user roles'')]),
                    (''visibleApps'', JObj
                      [(''type'', JStr ''array''),
                       (''items'', JObj [(''type'', JStr ''string'')]),
                       (''description'', JStr ''Filter by apps the user can see (app IDs)'')])])]),
              (''include'', JObj
                [(''type'', JStr ''array''),
                 (''items'', JObj
                   [(''type'', JStr ''string''),
                    (''enum'', JArr [JStr ''visibleApps'']),
                    (''description'', JStr ''Related resources to include in the response'')])])])]\<rparr>"

definition tool_list_customer_reviews :: tool where
  "tool_list_customer_reviews =
     \<lparr>tool_name = ''list_customer_reviews'',
      description = ''List all customer reviews for an app.'',
      inputSchema = JObj
          [(''type'', JStr ''object''),
           (''properties'', JObj
             [(''appId'', JObj
                [(''type'', JStr ''string''),
                 (''description'', JStr ''The ID of the app to get customer reviews for.'')]),
              (''filterTerritory'', JObj
                [(''type'', JStr ''array''),
                 (''items'', JObj [(''type'', JStr ''string'')]),
                 (''description'', JStr ''Filter by territory (ISO country code)'')]),
              (''filterRating'', JObj
                [(''type'', JStr ''array''),
                 (''items'', JObj [(''type'', JStr ''string'')]),
                 (''description'', JStr ''Filter by rating (1-5)'')]),
              (''existsPublishedResponse'', JObj
                [(''type'', JStr ''boolean''),
                 (''description'', JStr ''Filter by published response existence'')]),
              (''sort'', JObj
                [(''type'', JStr ''array''),
                 (''items'', JObj
                   [(''type'', JStr ''string''),
                    (''enum'', JArr
                      [JStr ''rating'',
                       JStr ''-rating'',
                       JStr ''createdDate'',
                       JStr ''-createdDate''])]),
                 (''description'', JStr ''Sort expressions'')]),
              (''fieldsCustomerReviews'', JObj
                [(''type'', JStr ''array''),
                 (''items'', JObj
                   [(''type'', JStr ''string''),
                    (''enum'', JArr
                      [JStr ''rating'',
                       JStr ''title'',
                       JStr ''body'',
                       JStr ''reviewerNickname'',
                       JStr ''createdDate'',
                       JStr ''territory'',
                       JStr ''response''])]),
                 (''description'', JStr ''Fields to include for customerReviews'')]),
              (''fieldsCustomerReviewResponses'', JObj
                [(''type'', JStr ''array''),
                 (''items'', JObj
                   [(''type'', JStr ''string''),
                    (''enum'', JArr
                      [JStr ''responseBody'',
                       JStr ''lastModifiedDate'',
                       JStr ''state'',
                       JStr ''review''])]),
                 (''description'', JStr ''Fields to include for customerReviewResponses'')]),
              (''limit'', JObj
                [(''type'', JStr ''number''),
                 (''description'', JStr ''Maximum resources per page (max 200)''),
                 (''maximum'', JNum ''200'')]),
              (''include'', JObj
                [(''type'', JStr ''array''),
                 (''items'', JObj [(''type'', JStr ''string''), (''enum'', JArr [JStr ''response''])]),
                 (''description'', JStr ''Relationships to include'')])]),
           (''required'', JArr [JStr ''appId''])]\<rparr>"

definition tool_list_customer_reviews_for_version :: tool where
  "tool_list_customer_reviews_for_version =
     \<lparr>tool_name = ''list_customer_reviews_for_version'',
      description = ''List all customer reviews for a specific App Store Version.'',
      inputSchema = JObj
          [(''type'', JStr ''object''),
           (''properties'', JObj
             [(''versionId'', JObj
                [(''type'', JStr ''string''),
                 (''description'', JStr ''The ID of the App Store Version to get customer reviews for.'')]),
              (''filterTerritory'', JObj
                [(''type'', JStr ''array''),
                 (''items'', JObj [(''type'', JStr ''string'')]),
                 (''description'', JStr ''Filter by territory (ISO country code)'')]),
              (''filterRating'', JObj
                [(''type'', JStr ''array''),
                 (''items'', JObj [(''type'', JStr ''string'')]),
                 (''description'', JStr ''Filter by rating (1-5)'')]),
              (''existsPublishedResponse'', JObj
                [(''type'', JStr ''boolean''),
                 (''description'', JStr ''Filter by published response existence'')]),
              (''sort'', JObj
                [(''type'', JStr ''array''),
                 (''items'', JObj
                   [(''type'', JStr ''string''),
                    (''enum'', JArr
                      [JStr ''rating'',
                       JStr ''-rating'',
                       JStr ''createdDate'',
                       JStr ''-createdDate''])]),
                 (''description'', JStr ''Sort expressions'')]),
              (''fieldsCustomerReviews'', JObj
                [(''type'', JStr ''array''),
                 (''items'', JObj
                   [(''type'', JStr ''string''),
                    (''enum'', JArr
                      [JStr ''rating'',
                       JStr ''title'',
                       JStr ''body'',
                       JStr ''reviewerNickname'',
                       JStr ''createdDate'',
                       JStr ''territory'',
                       JStr ''response''])]),
                 (''description'', JStr ''Fields to include for customerReviews'')]),
              (''fieldsCustomerReviewResponses'', JObj
                [(''type'', JStr ''array''),
                 (''items'', JObj
                   [(''type'', JStr ''string''),
                    (''enum'', JArr
                      [JStr ''responseBody'',
                       JStr ''lastModifiedDate'',
                       JStr ''state'',
                       JStr ''review''])]),
                 (''description'', JStr ''Fields to include for customerReviewResponses'')]),
              (''limit'', JObj
                [(''type'', JStr ''number''),
                 (''description'', JStr ''Maximum resources per page (max 200)''),
                 (''maximum'', JNum ''200'')]),
              (''include'', JObj
                [(''type'', JStr ''array''),
                 (''items'', JObj [(''type'', JStr ''string''), (''enum'', JArr [JStr ''response''])]),
                 (''description'', JStr ''Relationships to include'')])]),
           (''required'', JArr [JStr ''versionId''])]\<rparr>"

definition tool_create_customer_review_response :: tool where
  "tool_create_customer_review_response =
     \<lparr>tool_name = ''create_customer_review_response'',
      description = ''Create a response or replace an existing response you wrote to a customer review.'',
      inputSchema = JObj
          [(''type'', JStr ''object''),
           (''properties'', JObj
             [(''reviewId'', JObj
                [(''type'', JStr ''string''),
                 (''description'', JStr ''The ID of the customer review to respond to.'')]),
              (''responseBody'', JObj
                [(''type'', JStr ''string''),
                 (''description'', JStr ''The response text to the customer review.'')])]),
           (''required'', JArr [JStr ''reviewId'', JStr ''responseBody''])]\<rparr>"

definition tool_delete_customer_review_response :: tool where
  "tool_delete_customer_review_response =
     \<lparr>tool_name = ''delete_customer_review_response'',
      description = ''Delete a response to a customer review.'',
      inputSchema = JObj
          [(''type'', JStr ''object''),
           (''properties'', JObj
             [(''responseId'', JObj
                [(''type'', JStr ''string''),
                 (''description'', JStr ''The ID of the customer review response to delete.'')])]),
           (''required'', JArr [JStr ''responseId''])]\<rparr>"

definition tool_get_customer_review_response :: tool where
  "tool_get_customer_review_response =
     \<lparr>tool_name = ''get_customer_review_response'',
      description = ''Get the response to a specific customer review.'',
      inputSchema = JObj
          [(''type'', JStr ''object''),
           (''properties'', JObj
             [(''reviewId'', JObj
                [(''type'', JStr ''string''),
                 (''description'', JStr ''The ID of the customer review to get the response for.'')])]),
           (''required'', JArr [JStr ''reviewId''])]\<rparr>"

definition tools :: "tool list" where
  "tools =
     [tool_list_apps, tool_get_app_info, tool_list_users, tool_list_customer_reviews,
      tool_list_customer_reviews_for_version, tool_create_customer_review_response,
      tool_delete_customer_review_response, tool_get_customer_review_response]"

text \<open>The names an entry declares under \<^verbatim>\<open>required\<close>.\<close>

definition required_of :: "tool \<Rightarrow> string list" where
  "required_of t =
     (case get_prop ''required'' (inputSchema t) of
        Some (JArr xs) \<Rightarrow> concat (map (\<lambda>x. case x of JStr k \<Rightarrow> [k] | _ \<Rightarrow> []) xs)
      | _ \<Rightarrow> [])"

text \<open>The string argument of a call that goes by a given name in the schemas.\<close>

definition string_argument :: "string \<Rightarrow> tool_arguments \<Rightarrow> string option" where
  "string_argument k a =
     (if k = ''appId'' then appId a
      else if k = ''versionId'' then versionId a
      else if k = ''reviewId'' then reviewId a
      else if k = ''responseBody'' then responseBody a
      else if k = ''responseId'' then responseId a
      else None)"

text \<open>The arguments with the string argument of a given name set or left out.\<close>

definition with_string_argument ::
  "string \<Rightarrow> string option \<Rightarrow> tool_arguments \<Rightarrow> tool_arguments" where
  "with_string_argument k v a =
     (if k = ''appId'' then a\<lparr>appId := v\<rparr>
      else if k = ''versionId'' then a\<lparr>versionId := v\<rparr>
      else if k = ''reviewId'' then a\<lparr>reviewId := v\<rparr>
      else if k = ''responseBody'' then a\<lparr>responseBody := v\<rparr>
      else if k = ''responseId'' then a\<lparr>responseId := v\<rparr>
      else a)"

text \<open>The arguments that the cases of the switch test with \<^verbatim>\<open>if (!x)\<close>, by tool.\<close>

definition tested :: "string \<Rightarrow> string \<Rightarrow> bool" where
  "tested n k =
     (n = ''get_app_info'' \<and> k = ''appId''
      \<or> n = ''list_customer_reviews'' \<and> k = ''appId''
      \<or> n = ''list_customer_reviews_for_version'' \<and> k = ''versionId''
      \<or> n = ''create_customer_review_response'' \<and> k = ''reviewId''
      \<or> n = ''create_customer_review_response'' \<and> k = ''responseBody''
      \<or> n = ''delete_customer_review_response'' \<and> k = ''responseId''
      \<or> n = ''get_customer_review_response'' \<and> k = ''reviewId'')"



text \<open>The nine tools of the request-shaping table of the specification.\<close>

definition table_tools :: "string list" where
  "table_tools =
     [''list_apps'', ''get_app_info'', ''list_users'', ''list_customer_reviews'',
      ''list_customer_reviews_for_version'', ''create_customer_review_response'',
      ''delete_customer_review_response'', ''get_customer_review_response'',
      ''list_beta_groups'']"

section \<open>Concrete calls\<close>

text \<open>
  A configuration, worlds and replies on which the handler is run below. In
  \<open>example_world\<close> the key file is there and the signing library accepts it; the adapter
  gives the same reply to every request.
\<close>

definition example_config :: config where
  "example_config =
     \<lparr>keyId = ''KEY'', issuerId = ''ISSUER'', privateKeyPath = ''/keys/AuthKey.p8''\<rparr>"

definition example_world :: "http_reply \<Rightarrow> world" where
  "example_world reply =
     \<lparr>files = [''/keys/AuthKey.p8'' \<mapsto> ''PRIVATE KEY''],
      clock_ms = 1700000000123,
      key_accepted = (\<lambda>a k. a = ''ES256'' \<and> k = ''PRIVATE KEY''),
      adapter = (\<lambda>q. reply)\<rparr>"

definition world_without_key :: "http_reply \<Rightarrow> world" where
  "world_without_key reply = (example_world reply)\<lparr>files := Map.empty\<rparr>"

definition example_token :: jwt where
  "example_token =
     \<lparr>jwt_alg = ''ES256'', jwt_kid = ''KEY'', jwt_iss = ''ISSUER'',
      jwt_aud = ''appstoreconnect-v1'', jwt_iat = 1700000000, jwt_exp = 1700001200,
      jwt_key = ''PRIVATE KEY''\<rparr>"

text \<open>A 200 whose body is the eleven bytes \<^verbatim>\<open>{"data":[]}\<close>.\<close>

definition ok_response :: http_response where
  "ok_response =
     \<lparr>status = 200,
      raw = ''{'' @ [CHR 0x22] @ ''data'' @ [CHR 0x22] @ '':[]}'',
      data = JObj [(''data'', JArr [])]\<rparr>"

definition reply_ok :: http_reply where
  "reply_ok = Reply ok_response"

text \<open>A 404 whose body is \<^verbatim>\<open>{"errors":[{"detail":"Review not found"}]}\<close>.\<close>

definition not_found_response :: http_response where
  "not_found_response =
     \<lparr>status = 404,
      raw = ''{'' @ [CHR 0x22] @ ''errors'' @ [CHR 0x22] @ '':[{'' @ [CHR 0x22] @ ''detail''
            @ [CHR 0x22] @ '':'' @ [CHR 0x22] @ ''Review not found'' @ [CHR 0x22] @ ''}]}'',
      data = JObj [(''errors'', JArr [JObj [(''detail'', JStr ''Review not found'')]])]\<rparr>"

text \<open>A 204 with an empty body, which axios hands over as the empty string.\<close>

definition no_content_response :: http_response where
  "no_content_response = \<lparr>status = 204, raw = [], data = JStr []\<rparr>"

text \<open>
  A 500 whose body is \<^verbatim>\<open>{"errors":[{"detail":{"toString":1}}]}\<close>: the detail is an object
  with a property of its own named \<^verbatim>\<open>toString\<close>.
\<close>

definition odd_detail_response :: http_response where
  "odd_detail_response =
     \<lparr>status = 500,
      raw = ''{'' @ [CHR 0x22] @ ''errors'' @ [CHR 0x22] @ '':[{'' @ [CHR 0x22] @ ''detail''
            @ [CHR 0x22] @ '':{'' @ [CHR 0x22] @ ''toString'' @ [CHR 0x22] @ '':1}}]}'',
      data = JObj [(''errors'', JArr [JObj [(''detail'', JObj [(''toString'', JNum ''1'')])]])]\<rparr>"

text \<open>A 429 whose first detail is the number 42.\<close>

definition numeric_detail_response :: http_response where
  "numeric_detail_response =
     \<lparr>status = 429,
      raw = ''{'' @ [CHR 0x22] @ ''errors'' @ [CHR 0x22] @ '':[{'' @ [CHR 0x22] @ ''detail''
            @ [CHR 0x22] @ '':42}]}'',
      data = JObj [(''errors'', JArr [JObj [(''detail'', JNum ''42'')]])]\<rparr>"

text \<open>A text of several lines, and a word in double quotes.\<close>

definition text_lines :: "string list \<Rightarrow> string" where
  "text_lines ls = join [CHR 0x0A] ls"

definition quoted :: "string \<Rightarrow> string" where
  "quoted s = [CHR 0x22] @ s @ [CHR 0x22]"

text \<open>
  A 200 with one review: strings (one with a double quote and a line break), a number, a
  boolean, \<^verbatim>\<open>null\<close>, an empty object and an empty array. The body is sent in compact form.
\<close>

definition review_document :: json where
  "review_document =
     JObj [(''data'', JArr
             [JObj [(''id'', JStr ''1''), (''rating'', JNum ''5''), (''published'', JBool True),
                    (''response'', JNull),
                    (''body'', JStr (''a'' @ [CHR 0x22] @ ''b'' @ [CHR 0x0A]))]]),
           (''links'', JObj []),
           (''meta'', JArr [])]"

definition review_response :: http_response where
  "review_response =
     \<lparr>status = 200, raw = JSON_stringify0 review_document, data = review_document\<rparr>"
section \<open>Properties\<close>

subsection \<open>Constants of the source\<close>

text \<open>The time span of a token, and the names and required arguments of the registry.\<close>

lemma ms_20m: "ms ''20m'' = Some 1200000"
  by (simp add: ms_def is_digit_def digit_value_def)

lemma tool_names:
  "map tool_name tools =
     [''list_apps'', ''get_app_info'', ''list_users'', ''list_customer_reviews'',
      ''list_customer_reviews_for_version'', ''create_customer_review_response'',
      ''delete_customer_review_response'', ''get_customer_review_response'']"
  by (simp add: tools_def tool_list_apps_def tool_get_app_info_def tool_list_users_def
      tool_list_customer_reviews_def tool_list_customer_reviews_for_version_def
      tool_create_customer_review_response_def tool_delete_customer_review_response_def
      tool_get_customer_review_response_def)

lemma required_table:
  "map (\<lambda>t. (tool_name t, required_of t)) tools =
     [(''list_apps'', []), (''get_app_info'', [''appId'']), (''list_users'', []),
      (''list_customer_reviews'', [''appId'']),
      (''list_customer_reviews_for_version'', [''versionId'']),
      (''create_customer_review_response'', [''reviewId'', ''responseBody'']),
      (''delete_customer_review_response'', [''responseId'']),
      (''get_customer_review_response'', [''reviewId''])]"
  by (simp add: tools_def required_of_def tool_list_apps_def tool_get_app_info_def
      tool_list_users_def tool_list_customer_reviews_def
      tool_list_customer_reviews_for_version_def tool_create_customer_review_response_def
      tool_delete_customer_review_response_def tool_get_customer_review_response_def)

subsection \<open>The structure of a call\<close>

text \<open>
  A call ends in one of four ways: token generation fails; the switch throws before the
  HTTP call; the HTTP call is rejected; the HTTP call is resolved.
\<close>

lemma snd_generateToken: "snd (generateToken cfg w) = [ReadFile (privateKeyPath cfg)]"
  by (simp add: generateToken_def split: option.splits)

lemma handler_token_failure:
  "fst (generateToken cfg w) = Inl e \<Longrightarrow>
   handler cfg w request = (Inl e, [ReadFile (privateKeyPath cfg)])"
  using snd_generateToken [of cfg w]
  by (cases "generateToken cfg w") (simp add: handler_def)

lemma handler_switch_failure:
  "fst (generateToken cfg w) = Inr token \<Longrightarrow> switch token request = Inl e \<Longrightarrow>
   handler cfg w request = (Inl e, [ReadFile (privateKeyPath cfg)])"
  using snd_generateToken [of cfg w]
  by (cases "generateToken cfg w") (simp add: handler_def)

lemma handler_rejected:
  "fst (generateToken cfg w) = Inr token \<Longrightarrow> switch token request = Inr (q, render) \<Longrightarrow>
   axios_request w q = Inl err \<Longrightarrow>
   handler cfg w request = (Inl (catch_axios err), [ReadFile (privateKeyPath cfg), HttpSent q])"
  using snd_generateToken [of cfg w]
  by (cases "generateToken cfg w") (simp add: handler_def)

lemma handler_resolved:
  "fst (generateToken cfg w) = Inr token \<Longrightarrow> switch token request = Inr (q, render) \<Longrightarrow>
   axios_request w q = Inr r \<Longrightarrow>
   handler cfg w request = (Inr (render r), [ReadFile (privateKeyPath cfg), HttpSent q])"
  using snd_generateToken [of cfg w]
  by (cases "generateToken cfg w") (simp add: handler_def)

lemma handler_cases:
  obtains (token_failure) e where "fst (generateToken cfg w) = Inl e"
      and "handler cfg w request = (Inl e, [ReadFile (privateKeyPath cfg)])"
  | (switch_failure) token e where "fst (generateToken cfg w) = Inr token"
      and "switch token request = Inl e"
      and "handler cfg w request = (Inl e, [ReadFile (privateKeyPath cfg)])"
  | (rejected) token q render err where "fst (generateToken cfg w) = Inr token"
      and "switch token request = Inr (q, render)" and "axios_request w q = Inl err"
      and "handler cfg w request
        = (Inl (catch_axios err), [ReadFile (privateKeyPath cfg), HttpSent q])"
  | (resolved) token q render r where "fst (generateToken cfg w) = Inr token"
      and "switch token request = Inr (q, render)" and "axios_request w q = Inr r"
      and "handler cfg w request = (Inr (render r), [ReadFile (privateKeyPath cfg), HttpSent q])"
proof (cases "fst (generateToken cfg w)")
  case (Inl e)
  then show ?thesis using handler_token_failure token_failure by blast
next
  case (Inr token)
  note tok = this
  show ?thesis
  proof (cases "switch token request")
    case (Inl e)
    then show ?thesis using handler_switch_failure tok switch_failure by blast
  next
    case (Inr pr)
    obtain q render where pr: "pr = (q, render)" by (cases pr)
    show ?thesis
    proof (cases "axios_request w q")
      case (Inl err)
      then show ?thesis using handler_rejected [OF tok] Inr pr rejected tok by blast
    next
      case r: (Inr r)
      then show ?thesis using handler_resolved [OF tok] Inr pr resolved tok by blast
    qed
  qed
qed


lemma axios_request_Inr:
  "axios_request w q = Inr r \<Longrightarrow> adapter w q = Reply r \<and> 200 \<le> status r \<and> status r < 300"
  by (cases "adapter w q") (simp_all add: axios_request_def split: if_splits)

lemma axios_request_Inl:
  assumes "axios_request w q = Inl err"
  shows "(\<forall>msg. adapter w q = NoReply msg \<longrightarrow> err = \<lparr>message = msg, response = None\<rparr>)
       \<and> (\<forall>r. adapter w q = Reply r \<longrightarrow>
            err = \<lparr>message = ''Request failed with status code '' @ show_nat (status r),
                   response = Some r\<rparr>)"
  using assms by (cases "adapter w q") (auto simp: axios_request_def split: if_splits)

subsection \<open>The switch\<close>

text \<open>
  The cases by tool name, the tests of the required arguments, and what the cases make of
  a response.
\<close>

lemma switch_eval:
  "switch token \<lparr>name = ''list_apps'', arguments = args\<rparr> = call_list_apps token args"
  "switch token \<lparr>name = ''list_beta_groups'', arguments = args\<rparr>
     = call_list_beta_groups token args"
  "switch token \<lparr>name = ''get_app_info'', arguments = args\<rparr> = call_get_app_info token args"
  "switch token \<lparr>name = ''list_users'', arguments = args\<rparr> = call_list_users token args"
  "switch token \<lparr>name = ''list_customer_reviews'', arguments = args\<rparr>
     = call_list_customer_reviews token args"
  "switch token \<lparr>name = ''list_customer_reviews_for_version'', arguments = args\<rparr>
     = call_list_customer_reviews_for_version token args"
  "switch token \<lparr>name = ''create_customer_review_response'', arguments = args\<rparr>
     = call_create_customer_review_response token args"
  "switch token \<lparr>name = ''delete_customer_review_response'', arguments = args\<rparr>
     = call_delete_customer_review_response token args"
  "switch token \<lparr>name = ''get_customer_review_response'', arguments = args\<rparr>
     = call_get_customer_review_response token args"
  by (simp_all add: switch_def)

lemma required_tested:
  assumes "t \<in> set tools" and "k \<in> set (required_of t)"
  shows "tested (tool_name t) k"
proof -
  have "(tool_name t, required_of t) \<in> set (map (\<lambda>t. (tool_name t, required_of t)) tools)"
    using assms(1) by simp
  then have "(tool_name t, required_of t)
      \<in> set [(''list_apps'', []), (''get_app_info'', [''appId'']), (''list_users'', []),
        (''list_customer_reviews'', [''appId'']),
        (''list_customer_reviews_for_version'', [''versionId'']),
        (''create_customer_review_response'', [''reviewId'', ''responseBody'']),
        (''delete_customer_review_response'', [''responseId'']),
        (''get_customer_review_response'', [''reviewId''])]"
    unfolding required_table .
  then show ?thesis
    using assms(2) unfolding tested_def
    apply (simp only: list.set)
    apply (elim insertE emptyE)
           apply simp_all
    done
qed

lemma switch_falsy_argument:
  assumes "tested n k"
    and "string_argument k a = None \<or> string_argument k a = Some []"
  shows "\<exists>msg. switch token \<lparr>name = n, arguments = Some a\<rparr> = Inl (McpError InvalidParams msg)"
  using assms unfolding tested_def
  apply (elim disjE conjE)
  apply (simp_all add: switch_def string_argument_def truthy_string_def
      call_get_app_info_def call_list_customer_reviews_def
      call_list_customer_reviews_for_version_def call_create_customer_review_response_def
      call_delete_customer_review_response_def call_get_customer_review_response_def
      split: option.splits)
  done

lemma switch_no_arguments:
  assumes "tested n k"
  shows "switch token \<lparr>name = n, arguments = None\<rparr> = Inl TypeError"
  using assms unfolding tested_def
  apply (elim disjE conjE)
  apply (simp_all add: switch_def
      call_get_app_info_def call_list_customer_reviews_def
      call_list_customer_reviews_for_version_def call_create_customer_review_response_def
      call_delete_customer_review_response_def call_get_customer_review_response_def)
  done

lemma truthy_string_empty: "truthy_string (Some []) = truthy_string None"
  by (simp add: truthy_string_def)

lemma review_params_with:
  "review_params (with_string_argument k v a) = review_params a"
  by (simp add: review_params_def review_query_def with_string_argument_def
      cong: option.case_cong sum.case_cong)

lemma users_params_with:
  "users_params (with_string_argument k v a) = users_params a"
  by (simp add: users_params_def with_string_argument_def
      cong: option.case_cong sum.case_cong)

lemma limit_or_100_with:
  "limit_or_100 (Some (with_string_argument k v a)) = limit_or_100 (Some a)"
  by (simp add: limit_or_100_def with_string_argument_def)

lemma switch_empty_as_omitted:
  "switch token \<lparr>name = n, arguments = Some (with_string_argument k (Some []) a)\<rparr>
     = switch token \<lparr>name = n, arguments = Some (with_string_argument k None a)\<rparr>"
proof -
  have fields:
    "truthy_string (appId (with_string_argument k (Some []) a))
       = truthy_string (appId (with_string_argument k None a))"
    "truthy_string (versionId (with_string_argument k (Some []) a))
       = truthy_string (versionId (with_string_argument k None a))"
    "truthy_string (reviewId (with_string_argument k (Some []) a))
       = truthy_string (reviewId (with_string_argument k None a))"
    "truthy_string (responseBody (with_string_argument k (Some []) a))
       = truthy_string (responseBody (with_string_argument k None a))"
    "truthy_string (responseId (with_string_argument k (Some []) a))
       = truthy_string (responseId (with_string_argument k None a))"
    "include_arg (with_string_argument k (Some []) a)
       = include_arg (with_string_argument k None a)"
    by (simp_all add: with_string_argument_def truthy_string_empty)
  show ?thesis
    unfolding switch_def call_list_apps_def call_list_beta_groups_def call_get_app_info_def
      call_list_users_def call_list_customer_reviews_def
      call_list_customer_reviews_for_version_def call_create_customer_review_response_def
      call_delete_customer_review_response_def call_get_customer_review_response_def
      call_request.simps option.case Let_def
      review_params_with users_params_with limit_or_100_with fields
    by (rule refl)
qed

lemma string_argument_with:
  "tested n k \<Longrightarrow> string_argument k (with_string_argument k v a) = v"
  unfolding tested_def
  apply (elim disjE conjE)
  apply (simp_all add: string_argument_def with_string_argument_def)
  done

lemma call_renders:
  "call_list_apps token args = Inr (q, render) \<Longrightarrow> render = relay_json"
  "call_list_beta_groups token args = Inr (q, render) \<Longrightarrow> render = relay_json"
  "call_get_app_info token args = Inr (q, render) \<Longrightarrow> render = relay_json"
  "call_list_users token args = Inr (q, render) \<Longrightarrow> render = relay_json"
  "call_list_customer_reviews token args = Inr (q, render) \<Longrightarrow> render = relay_json"
  "call_list_customer_reviews_for_version token args = Inr (q, render) \<Longrightarrow> render = relay_json"
  "call_create_customer_review_response token args = Inr (q, render) \<Longrightarrow> render = relay_json"
  "call_get_customer_review_response token args = Inr (q, render) \<Longrightarrow> render = relay_json"
  by (auto simp: call_list_apps_def call_list_beta_groups_def call_get_app_info_def
      call_list_users_def call_list_customer_reviews_def
      call_list_customer_reviews_for_version_def call_create_customer_review_response_def
      call_get_customer_review_response_def Let_def
      split: option.splits sum.splits)

lemma switch_render:
  assumes "switch token request = Inr (q, render)"
    and "name request \<noteq> ''delete_customer_review_response''"
  shows "render = relay_json"
  using assms call_renders [of token "arguments request" q render]
  by (simp add: switch_def split: if_splits)

lemma call_delete_render:
  assumes "call_delete_customer_review_response token args = Inr (q, render)"
  shows "\<exists>a rid. args = Some a \<and> responseId a = Some rid \<and> rid \<noteq> []
      \<and> q = \<lparr>verb = DELETE, url = ''/customerReviewResponses/'' @ rid,
             headers = [(''Authorization'', Bearer token)], params = Map.empty, body = None\<rparr>
      \<and> render = (\<lambda>r. text_result
            (''Customer review response '' @ rid @ '' deleted successfully.''))"
proof (cases args)
  case None
  with assms show ?thesis by (simp add: call_delete_customer_review_response_def)
next
  case (Some a)
  show ?thesis
  proof (cases "truthy_string (responseId a)")
    case None
    with assms Some show ?thesis by (simp add: call_delete_customer_review_response_def)
  next
    case rid: (Some rid)
    then have "responseId a = Some rid" and "rid \<noteq> []"
      by (simp_all add: truthy_string_def split: option.splits if_splits)
    moreover from assms Some rid
    have "q = \<lparr>verb = DELETE, url = ''/customerReviewResponses/'' @ rid,
             headers = [(''Authorization'', Bearer token)], params = Map.empty, body = None\<rparr>"
      and "render = (\<lambda>r. text_result
            (''Customer review response '' @ rid @ '' deleted successfully.''))"
      by (simp_all add: call_delete_customer_review_response_def)
    ultimately show ?thesis using Some by simp
  qed
qed

subsection \<open>Query parameters\<close>




















subsection \<open>The message of an upstream failure\<close>

text \<open>
  The detail that the \<^verbatim>\<open>catch\<close> block reads, by the shape of the response body: the
  \<^verbatim>\<open>detail\<close> of the first element of \<^verbatim>\<open>errors\<close>, where \<^verbatim>\<open>errors\<close> is an array or an
  object with the key \<^verbatim>\<open>0\<close>.
\<close>

lemma first_detail_array:
  assumes "response err = Some r" and "data r = JObj kvs"
    and "map_of kvs ''errors'' = Some (JArr (JObj e # es))"
  shows "first_detail err = map_of e ''detail''"
  using assms by (simp add: first_detail_def)

lemma first_detail_object:
  assumes "response err = Some r" and "data r = JObj kvs"
    and "map_of kvs ''errors'' = Some (JObj obj)" and "map_of obj ''0'' = Some (JObj e)"
  shows "first_detail err = map_of e ''detail''"
  using assms by (simp add: first_detail_def)

lemma detail_or_message_found:
  "first_detail err = Some d \<Longrightarrow> d \<noteq> JNull \<Longrightarrow> detail_or_message err = toString d"
  by (cases d) (simp_all add: detail_or_message_def)

lemma detail_or_message_missing:
  "first_detail err = None \<or> first_detail err = Some JNull \<Longrightarrow>
   detail_or_message err = Some (message err)"
  by (auto simp: detail_or_message_def)

lemma those_map:
  "those (map g xs) = (if \<exists>x\<in>set xs. g x = None then None else Some (map (\<lambda>x. the (g x)) xs))"
  by (induction xs) (auto split: option.splits)

lemma toString_array:
  "toString (JArr xs) =
     (if \<exists>x\<in>set xs. x \<noteq> JNull \<and> toString x = None then None
      else Some (join '','' (map (\<lambda>x. if x = JNull then [] else the (toString x)) xs)))"
proof -
  have "(\<exists>x\<in>set xs. (if x = JNull then Some [] else toString x) = None)
      = (\<exists>x\<in>set xs. x \<noteq> JNull \<and> toString x = None)"
    by auto
  moreover have "(\<lambda>x. the (if x = JNull then Some [] else toString x))
      = (\<lambda>x. if x = JNull then [] else the (toString x))"
    by (rule ext) simp
  ultimately show ?thesis
    by (simp add: those_map)
qed

lemma toString_object:
  "toString (JObj kvs) = (if ''toString'' \<in> fst ` set kvs then None else Some ''[object Object]'')"
proof (cases "map_of kvs ''toString''")
  case None
  have absent: "''toString'' \<notin> fst ` set kvs"
    using None by (simp add: map_of_eq_None_iff)
  show ?thesis
    unfolding toString.simps None using absent by simp
next
  case (Some v)
  have "map_of kvs ''toString'' \<noteq> None"
    unfolding Some by simp
  then have present: "''toString'' \<in> fst ` set kvs"
    by (simp add: map_of_eq_None_iff)
  show ?thesis
    unfolding toString.simps Some using present by simp
qed

lemma first_detail_shapes:
  "first_detail err = None \<or> first_detail err = Some JNull
   \<or> (\<exists>r kvs e es d. response err = Some r \<and> data r = JObj kvs
         \<and> map_of kvs ''errors'' = Some (JArr (JObj e # es))
         \<and> map_of e ''detail'' = Some d \<and> d \<noteq> JNull)
   \<or> (\<exists>r kvs obj e d. response err = Some r \<and> data r = JObj kvs
         \<and> map_of kvs ''errors'' = Some (JObj obj) \<and> map_of obj ''0'' = Some (JObj e)
         \<and> map_of e ''detail'' = Some d \<and> d \<noteq> JNull)"
proof (cases "response err")
  case None
  then show ?thesis by (simp add: first_detail_def)
next
  case (Some r)
  note r = this
  show ?thesis
  proof (cases "data r")
    case (JObj kvs)
    note kvs = this
    have element: "opt_chain (get_prop ''detail'') (Some x) = None
        \<or> opt_chain (get_prop ''detail'') (Some x) = Some JNull
        \<or> (\<exists>e d. x = JObj e \<and> map_of e ''detail'' = Some d \<and> d \<noteq> JNull
              \<and> opt_chain (get_prop ''detail'') (Some x) = Some d)" for x
      by (cases x) auto
    show ?thesis
    proof (cases "map_of kvs ''errors''")
      case None
      with r kvs show ?thesis by (simp add: first_detail_def)
    next
      case (Some errs)
      note errs = this
      show ?thesis
      proof (cases errs)
        case (JArr xs)
        show ?thesis
        proof (cases xs)
          case Nil
          with r kvs errs JArr show ?thesis by (simp add: first_detail_def)
        next
          case (Cons x es)
          with r kvs errs JArr
          have "first_detail err = opt_chain (get_prop ''detail'') (Some x)"
            by (simp add: first_detail_def)
          with element [of x] r kvs errs JArr Cons show ?thesis
            by (elim disjE exE conjE) simp_all
        qed
      next
        case (JObj obj)
        show ?thesis
        proof (cases "map_of obj ''0''")
          case None
          with r kvs errs JObj show ?thesis by (simp add: first_detail_def)
        next
          case (Some x)
          with r kvs errs JObj
          have "first_detail err = opt_chain (get_prop ''detail'') (Some x)"
            by (simp add: first_detail_def)
          with element [of x] r kvs errs JObj Some show ?thesis
            by (elim disjE exE conjE) simp_all
        qed
      next
        case (JStr s)
        with r kvs errs show ?thesis
          by (cases s) (simp_all add: first_detail_def)
      qed (use r kvs errs in \<open>simp_all add: first_detail_def\<close>)
    qed
  qed (use r in \<open>simp_all add: first_detail_def\<close>)
qed

subsection \<open>The concrete calls\<close>

text \<open>The handler on the configuration, worlds and replies of the examples.\<close>

lemma example_generateToken:
  "generateToken example_config (example_world reply) =
     (Inr example_token, [ReadFile ''/keys/AuthKey.p8''])"
  by (simp add: generateToken_def example_config_def example_world_def jwt_sign_def ms_20m
      example_token_def)

lemma example_tool:
  "tool_get_app_info \<in> set tools \<and> ''appId'' \<in> set (required_of tool_get_app_info)
   \<and> tool_name tool_get_app_info = ''get_app_info''"
  by (simp add: tools_def required_of_def tool_get_app_info_def)

lemma without_key_generateToken:
  "generateToken example_config (world_without_key reply)
     = (Inl (FsError ''/keys/AuthKey.p8''), [ReadFile ''/keys/AuthKey.p8''])"
  by (simp add: generateToken_def world_without_key_def example_world_def example_config_def)

lemma without_key_handler:
  "handler example_config (world_without_key reply) request
     = (Inl (FsError ''/keys/AuthKey.p8''), [ReadFile ''/keys/AuthKey.p8''])"
  by (simp add: handler_def without_key_generateToken)

lemma example_handler_failure:
  "switch example_token request = Inl e \<Longrightarrow>
   handler example_config (example_world reply) request = (Inl e, [ReadFile ''/keys/AuthKey.p8''])"
  by (simp add: handler_def example_generateToken)



lemma show_nat_404: "show_nat 404 = ''404''"
  by (simp add: show_nat.simps [of 404] show_nat.simps [of 40] show_nat.simps [of 4])

lemma example_axios_resolved:
  "200 \<le> status r \<Longrightarrow> status r < 300 \<Longrightarrow> axios_request (example_world (Reply r)) q = Inr r"
  by (simp add: axios_request_def example_world_def)

lemma example_handler_resolved:
  assumes "switch example_token request = Inr (q, render)"
    and "200 \<le> status r" and "status r < 300"
  shows "handler example_config (example_world (Reply r)) request
     = (Inr (render r), [ReadFile ''/keys/AuthKey.p8'', HttpSent q])"
proof -
  have "fst (generateToken example_config (example_world (Reply r))) = Inr example_token"
    by (simp add: example_generateToken)
  from handler_resolved [OF this assms(1) example_axios_resolved [OF assms(2,3)]]
  show ?thesis by (simp add: example_config_def)
qed

lemma list_apps_example:
  "switch example_token \<lparr>name = ''list_apps'', arguments = None\<rparr>
     = Inr (\<lparr>verb = GET, url = ''/apps'', headers = [(''Authorization'', Bearer example_token)],
             params = [''limit'' \<mapsto> PNum 100], body = None\<rparr>, relay_json)"
  by (simp add: switch_eval call_list_apps_def limit_or_100_def)

lemma quote_data: "quote ''data'' = [CHR 0x22] @ ''data'' @ [CHR 0x22]"
  by (simp add: quote_def escape_char_def)

lemma ok_text:
  "JSON_stringify2 (data ok_response)
     = ''{'' @ [CHR 0x0A] @ ''  '' @ [CHR 0x22] @ ''data'' @ [CHR 0x22] @ '': []'' @ [CHR 0x0A] @ ''}''"
  by (simp add: JSON_stringify2_def ok_response_def quote_data)

lemma ok_compact: "JSON_stringify0 (data ok_response) = raw ok_response"
  by (simp add: JSON_stringify0_def ok_response_def quote_data)

lemma list_apps_run:
  "handler example_config (example_world (Reply ok_response))
        \<lparr>name = ''list_apps'', arguments = None\<rparr>
     = (Inr (relay_json ok_response),
        [ReadFile ''/keys/AuthKey.p8'',
         HttpSent \<lparr>verb = GET, url = ''/apps'',
           headers = [(''Authorization'', Bearer example_token)],
           params = [''limit'' \<mapsto> PNum 100], body = None\<rparr>])"
  by (rule example_handler_resolved [OF list_apps_example]) (simp_all add: ok_response_def)

lemma delete_example:
  "switch example_token
      \<lparr>name = ''delete_customer_review_response'',
       arguments = Some (no_arguments\<lparr>responseId := Some ''resp1''\<rparr>)\<rparr>
     = Inr (\<lparr>verb = DELETE, url = ''/customerReviewResponses/resp1'',
             headers = [(''Authorization'', Bearer example_token)],
             params = Map.empty, body = None\<rparr>,
            \<lambda>r. text_result (''Customer review response '' @ ''resp1''
              @ '' deleted successfully.''))"
  by (simp add: switch_eval call_delete_customer_review_response_def truthy_string_def)

lemma show_nat_examples: "show_nat 429 = ''429''" "show_nat 500 = ''500''"
  by (simp_all add: show_nat.simps [of 429] show_nat.simps [of 42] show_nat.simps [of 4]
      show_nat.simps [of 500] show_nat.simps [of 50] show_nat.simps [of 5])

lemma example_axios_rejected:
  "\<not> (200 \<le> status r \<and> status r < 300) \<Longrightarrow>
   axios_request (example_world (Reply r)) q
     = Inl \<lparr>message = ''Request failed with status code '' @ show_nat (status r),
            response = Some r\<rparr>"
  by (simp add: axios_request_def example_world_def)

lemma example_axios_no_reply:
  "axios_request (example_world (NoReply msg)) q = Inl \<lparr>message = msg, response = None\<rparr>"
  by (simp add: axios_request_def example_world_def)

lemma get_response_example:
  "switch example_token
      \<lparr>name = ''get_customer_review_response'',
       arguments = Some (no_arguments\<lparr>reviewId := Some ''r1''\<rparr>)\<rparr>
     = Inr (\<lparr>verb = GET, url = ''/customerReviews/r1/response'',
             headers = [(''Authorization'', Bearer example_token)],
             params = Map.empty, body = None\<rparr>, relay_json)"
  by (simp add: switch_eval call_get_customer_review_response_def truthy_string_def)

lemma example_token_generated:
  "fst (generateToken example_config (example_world reply)) = Inr example_token"
  by (simp add: example_generateToken)

lemma reviews_example:
  "switch example_token
      \<lparr>name = ''list_customer_reviews'',
       arguments = Some (no_arguments\<lparr>appId := Some ''123''\<rparr>)\<rparr>
    = Inr (\<lparr>verb = GET, url = ''/apps/123/customerReviews'',
        headers = [(''Authorization'', Bearer example_token)],
        params = review_query (no_arguments\<lparr>appId := Some ''123''\<rparr>) None, body = None\<rparr>,
        relay_json)"
  by (simp add: switch_eval call_list_customer_reviews_def truthy_string_def
      review_params_def review_sort_def no_arguments_def)

lemma escape_plain:
  "escape_char CHR ''a'' = ''a''" "escape_char CHR ''b'' = ''b''"
  "escape_char CHR ''d'' = ''d''" "escape_char CHR ''e'' = ''e''"
  "escape_char CHR ''g'' = ''g''" "escape_char CHR ''h'' = ''h''"
  "escape_char CHR ''i'' = ''i''" "escape_char CHR ''k'' = ''k''"
  "escape_char CHR ''l'' = ''l''" "escape_char CHR ''m'' = ''m''"
  "escape_char CHR ''n'' = ''n''" "escape_char CHR ''o'' = ''o''"
  "escape_char CHR ''p'' = ''p''" "escape_char CHR ''r'' = ''r''"
  "escape_char CHR ''s'' = ''s''" "escape_char CHR ''t'' = ''t''"
  "escape_char CHR ''u'' = ''u''" "escape_char CHR ''y'' = ''y''"
  "escape_char CHR ''1'' = ''1''"
  "escape_char CHR 0x22 = [CHR 0x5C, CHR 0x22]" "escape_char CHR 0x0A = [CHR 0x5C, CHR ''n'']"
  by (simp_all add: escape_char_def)

lemma review_text:
  "JSON_stringify2 review_document =
     text_lines
       [''{'',
        ''  '' @ quoted ''data'' @ '': ['',
        ''    {'',
        ''      '' @ quoted ''id'' @ '': '' @ quoted ''1'' @ '','',
        ''      '' @ quoted ''rating'' @ '': 5,'',
        ''      '' @ quoted ''published'' @ '': true,'',
        ''      '' @ quoted ''response'' @ '': null,'',
        ''      '' @ quoted ''body'' @ '': ''
           @ quoted (''a'' @ [CHR 0x5C, CHR 0x22] @ ''b'' @ [CHR 0x5C, CHR ''n'']),
        ''    }'',
        ''  ],'',
        ''  '' @ quoted ''links'' @ '': {},'',
        ''  '' @ quoted ''meta'' @ '': []'',
        ''}'']"
  by (simp add: JSON_stringify2_def review_document_def quote_def escape_plain
      text_lines_def quoted_def)

lemma delete_prepared:
  "responseId a = Some rid \<Longrightarrow> rid \<noteq> [] \<Longrightarrow>
   switch token \<lparr>name = ''delete_customer_review_response'', arguments = Some a\<rparr>
     = Inr (\<lparr>verb = DELETE, url = ''/customerReviewResponses/'' @ rid,
             headers = [(''Authorization'', Bearer token)], params = Map.empty, body = None\<rparr>,
            \<lambda>r. text_result (''Customer review response '' @ rid @ '' deleted successfully.''))"
  by (simp add: switch_eval call_delete_customer_review_response_def truthy_string_def)

subsection \<open>Required arguments\<close>

text \<open>
  C1, as the handler has it. Take a tool of the registry and an argument that its schema
  declares required. A call that leaves the argument out, or that carries no arguments at
  all, fails, and no HTTP request is sent. When the call carries an arguments object and
  the token was generated, the failure is \<open>InvalidParams\<close>.
\<close>

theorem missing_required_argument:
  assumes "t \<in> set tools" and "k \<in> set (required_of t)"
    and "args = None \<or> (\<exists>a. args = Some a \<and> string_argument k a = None)"
  shows "isl (fst (handler cfg w \<lparr>name = tool_name t, arguments = args\<rparr>))
       \<and> sent (snd (handler cfg w \<lparr>name = tool_name t, arguments = args\<rparr>)) = []
       \<and> (args \<noteq> None \<and> \<not> isl (fst (generateToken cfg w)) \<longrightarrow>
            (\<exists>msg. fst (handler cfg w \<lparr>name = tool_name t, arguments = args\<rparr>)
               = Inl (McpError InvalidParams msg)))"
proof -
  let ?request = "\<lparr>name = tool_name t, arguments = args\<rparr>"
  note pair = required_tested [OF assms(1,2)]
  show ?thesis
  proof (cases "fst (generateToken cfg w)")
    case (Inl e)
    then show ?thesis
      using handler_token_failure [of cfg w e ?request] by simp
  next
    case (Inr token)
    show ?thesis
    proof (cases args)
      case None
      then have "switch token ?request = Inl TypeError"
        using switch_no_arguments [OF pair] by simp
      then show ?thesis
        using handler_switch_failure [OF Inr, of ?request] None by simp
    next
      case (Some a)
      with assms(3) have "string_argument k a = None" by simp
      then obtain msg where "switch token ?request = Inl (McpError InvalidParams msg)"
        using switch_falsy_argument [OF pair, of a token] Some by auto
      then show ?thesis
        using handler_switch_failure [OF Inr, of ?request] by simp
    qed
  qed
qed

theorem missing_required_argument_witness:
  "tool_get_app_info \<in> set tools \<and> ''appId'' \<in> set (required_of tool_get_app_info)
   \<and> string_argument ''appId'' no_arguments = None
   \<and> \<not> isl (fst (generateToken example_config (example_world reply_ok)))
   \<and> handler example_config (example_world reply_ok)
        \<lparr>name = ''get_app_info'', arguments = Some no_arguments\<rparr>
      = (Inl (McpError InvalidParams ''appId is required''), [ReadFile ''/keys/AuthKey.p8''])
   \<and> sent (snd (handler example_config (example_world reply_ok)
        \<lparr>name = tool_name tool_get_app_info, arguments = Some no_arguments\<rparr>)) = []"
proof -
  have arg: "string_argument ''appId'' no_arguments = None"
    by (simp add: string_argument_def no_arguments_def)
  have run: "handler example_config (example_world reply_ok)
        \<lparr>name = ''get_app_info'', arguments = Some no_arguments\<rparr>
      = (Inl (McpError InvalidParams ''appId is required''), [ReadFile ''/keys/AuthKey.p8''])"
    by (simp add: handler_def example_generateToken switch_def call_get_app_info_def
        truthy_string_def no_arguments_def)
  from example_tool arg
    missing_required_argument [of tool_get_app_info "''appId''" "Some no_arguments"
      example_config "example_world reply_ok"]
  have "sent (snd (handler example_config (example_world reply_ok)
        \<lparr>name = tool_name tool_get_app_info, arguments = Some no_arguments\<rparr>)) = []"
    by simp
  with example_tool arg run show ?thesis
    by (simp add: example_generateToken)
qed

text \<open>
  The claim without these two conditions fails: with the key file missing the failure is
  the one of reading the file, and with no arguments object it is a \<open>TypeError\<close>.
\<close>

theorem missing_required_argument_counterexample:
  "handler example_config (world_without_key reply_ok)
       \<lparr>name = ''get_app_info'', arguments = Some no_arguments\<rparr>
     = (Inl (FsError ''/keys/AuthKey.p8''), [ReadFile ''/keys/AuthKey.p8''])
   \<and> handler example_config (example_world reply_ok)
       \<lparr>name = ''get_app_info'', arguments = None\<rparr>
     = (Inl TypeError, [ReadFile ''/keys/AuthKey.p8''])"
proof -
  have "switch example_token \<lparr>name = ''get_app_info'', arguments = None\<rparr> = Inl TypeError"
    by (simp add: switch_def call_get_app_info_def)
  then show ?thesis
    by (simp add: without_key_handler example_handler_failure)
qed

subsection \<open>Token issuance\<close>

text \<open>
  C2. Every token that \<open>generateToken\<close> produces is signed with ES256, has the audience
  \<^verbatim>\<open>appstoreconnect-v1\<close>, carries the key identifier and the issuer of the configuration,
  is issued at the clock of the call and expires 20 minutes later, so at most 20 minutes
  after the call. It is signed with the content that the configured key file has at this
  call, and the call reads that file once: the function has no state in which a key or a
  token of an earlier call could be kept.
\<close>

theorem generateToken_claims:
  assumes "generateToken cfg w = (Inr token, evs)"
  shows "jwt_alg token = ''ES256'' \<and> jwt_aud token = ''appstoreconnect-v1''
       \<and> jwt_kid token = keyId cfg \<and> jwt_iss token = issuerId cfg
       \<and> jwt_iat token = clock_ms w div 1000
       \<and> jwt_exp token = jwt_iat token + 20 * 60
       \<and> jwt_exp token * 1000 \<le> clock_ms w + 20 * 60 * 1000
       \<and> files w (privateKeyPath cfg) = Some (jwt_key token)
       \<and> evs = [ReadFile (privateKeyPath cfg)]"
proof -
  from assms obtain privateKey where key: "files w (privateKeyPath cfg) = Some privateKey"
    by (auto simp: generateToken_def split: option.splits)
  with assms have signed:
    "jwt_sign w privateKey
       \<lparr>algorithm = ''ES256'', expiresIn = ''20m'', audience = ''appstoreconnect-v1'',
        keyid = keyId cfg, issuer = issuerId cfg\<rparr> = Inr token"
    and evs: "evs = [ReadFile (privateKeyPath cfg)]"
    by (auto simp: generateToken_def)
  from signed have token:
    "token = \<lparr>jwt_alg = ''ES256'', jwt_kid = keyId cfg, jwt_iss = issuerId cfg,
              jwt_aud = ''appstoreconnect-v1'', jwt_iat = clock_ms w div 1000,
              jwt_exp = clock_ms w div 1000 + 1200, jwt_key = privateKey\<rparr>"
    by (auto simp: jwt_sign_def ms_20m Let_def split: if_splits)
  have "(clock_ms w div 1000) * 1000 \<le> clock_ms w" by simp
  then have "(clock_ms w div 1000 + 1200) * 1000 \<le> clock_ms w + 20 * 60 * 1000" by simp
  with token key evs show ?thesis by simp
qed

theorem generateToken_claims_witness:
  "generateToken example_config (example_world reply_ok)
     = (Inr example_token, [ReadFile ''/keys/AuthKey.p8''])
   \<and> jwt_alg example_token = ''ES256'' \<and> jwt_aud example_token = ''appstoreconnect-v1''
   \<and> jwt_exp example_token * 1000 \<le> clock_ms (example_world reply_ok) + 20 * 60 * 1000
   \<and> files (example_world reply_ok) ''/keys/AuthKey.p8'' = Some (jwt_key example_token)"
  using generateToken_claims [OF example_generateToken [of reply_ok]]
    example_generateToken [of reply_ok]
  by (simp add: example_config_def)

subsection \<open>The order of token generation and validation\<close>

text \<open>
  C3, as the handler has it. The handler generates the token first: every call reads the
  key file, once and before anything else, and the only other effects are HTTP requests. A
  failure of token generation is the failure of the call, whatever the request is. When the
  token was generated and the switch throws (a required argument is missing, or the tool is
  unknown), the call fails with that exception, and the file read is its only effect.
\<close>

theorem token_generated_first:
  "snd (generateToken cfg w) = [ReadFile (privateKeyPath cfg)]
   \<and> snd (handler cfg w request)
       = snd (generateToken cfg w) @ map HttpSent (sent (snd (handler cfg w request)))
   \<and> (\<forall>e. fst (generateToken cfg w) = Inl e \<longrightarrow>
         handler cfg w request = (Inl e, [ReadFile (privateKeyPath cfg)]))
   \<and> (\<forall>token e. fst (generateToken cfg w) = Inr token \<and> switch token request = Inl e \<longrightarrow>
         handler cfg w request = (Inl e, [ReadFile (privateKeyPath cfg)]))"
proof -
  have "snd (handler cfg w request)
       = snd (generateToken cfg w) @ map HttpSent (sent (snd (handler cfg w request)))"
    by (cases rule: handler_cases [of cfg w request]) (simp_all add: snd_generateToken)
  then show ?thesis
    using handler_token_failure [of cfg w _ request] handler_switch_failure [of cfg w _ request]
    by (simp add: snd_generateToken)
qed

theorem token_generated_first_witness:
  "fst (generateToken example_config (example_world reply_ok)) = Inr example_token
   \<and> switch example_token \<lparr>name = ''no_such_tool'', arguments = None\<rparr>
       = Inl (McpError MethodNotFound ''Unknown tool: no_such_tool'')
   \<and> handler example_config (example_world reply_ok) \<lparr>name = ''no_such_tool'', arguments = None\<rparr>
       = (Inl (McpError MethodNotFound ''Unknown tool: no_such_tool''),
          [ReadFile (privateKeyPath example_config)])"
proof -
  have tok: "fst (generateToken example_config (example_world reply_ok)) = Inr example_token"
    by (simp add: example_generateToken)
  have sw: "switch example_token \<lparr>name = ''no_such_tool'', arguments = None\<rparr>
       = Inl (McpError MethodNotFound ''Unknown tool: no_such_tool'')"
    by (simp add: switch_def)
  from token_generated_first [of example_config "example_world reply_ok"
      "\<lparr>name = ''no_such_tool'', arguments = None\<rparr>"] tok sw
  show ?thesis by blast
qed

text \<open>
  The claim that no token is issued and no key file is read for a call whose validation
  fails or whose tool is unknown is false: here the token is generated and the file is read
  for a call without \<^verbatim>\<open>appId\<close> and for an unknown tool.
\<close>

theorem token_generated_first_counterexample:
  "generateToken example_config (example_world reply_ok)
     = (Inr example_token, [ReadFile ''/keys/AuthKey.p8''])
   \<and> handler example_config (example_world reply_ok)
       \<lparr>name = ''list_customer_reviews'', arguments = Some no_arguments\<rparr>
     = (Inl (McpError InvalidParams ''appId is required''), [ReadFile ''/keys/AuthKey.p8''])
   \<and> handler example_config (example_world reply_ok)
       \<lparr>name = ''unknown_tool'', arguments = Some no_arguments\<rparr>
     = (Inl (McpError MethodNotFound ''Unknown tool: unknown_tool''),
        [ReadFile ''/keys/AuthKey.p8''])"
proof -
  have "switch example_token \<lparr>name = ''list_customer_reviews'', arguments = Some no_arguments\<rparr>
      = Inl (McpError InvalidParams ''appId is required'')"
    by (simp add: switch_def call_list_customer_reviews_def truthy_string_def no_arguments_def)
  moreover have "switch example_token \<lparr>name = ''unknown_tool'', arguments = Some no_arguments\<rparr>
      = Inl (McpError MethodNotFound ''Unknown tool: unknown_tool'')"
    by (simp add: switch_def)
  ultimately show ?thesis
    by (simp add: example_generateToken example_handler_failure)
qed

subsection \<open>The limit parameter\<close>




subsection \<open>List-valued arguments\<close>




subsection \<open>The registry\<close>

text \<open>
  C6 does not hold of the source. The request-shaping table has nine tools, and the switch
  has a case for each of them, also for \<^verbatim>\<open>list_beta_groups\<close>. The list that the handler
  of \<^verbatim>\<open>ListToolsRequestSchema\<close> returns has eight entries: it has none for
  \<^verbatim>\<open>list_beta_groups\<close>.
\<close>

theorem registry_without_list_beta_groups:
  "length table_tools = 9 \<and> ''list_beta_groups'' \<in> set table_tools
   \<and> map tool_name tools =
     [''list_apps'', ''get_app_info'', ''list_users'', ''list_customer_reviews'',
      ''list_customer_reviews_for_version'', ''create_customer_review_response'',
      ''delete_customer_review_response'', ''get_customer_review_response'']
   \<and> ''list_beta_groups'' \<notin> set (map tool_name tools)
   \<and> switch example_token \<lparr>name = ''list_beta_groups'', arguments = None\<rparr>
     = Inr (\<lparr>verb = GET, url = ''/betaGroups'',
             headers = [(''Authorization'', Bearer example_token)],
             params = [''limit'' \<mapsto> PNum 100, ''include'' \<mapsto> PStr ''app,betaTesters''],
             body = None\<rparr>, relay_json)"
proof -
  have "switch example_token \<lparr>name = ''list_beta_groups'', arguments = None\<rparr>
     = Inr (\<lparr>verb = GET, url = ''/betaGroups'',
             headers = [(''Authorization'', Bearer example_token)],
             params = [''limit'' \<mapsto> PNum 100, ''include'' \<mapsto> PStr ''app,betaTesters''],
             body = None\<rparr>, relay_json)"
    by (simp add: switch_eval call_list_beta_groups_def limit_or_100_def)
  moreover have "''list_beta_groups'' \<notin> set (map tool_name tools)"
    unfolding tool_names by simp
  moreover have "length table_tools = 9 \<and> ''list_beta_groups'' \<in> set table_tools"
    by (simp add: table_tools_def)
  ultimately show ?thesis
    using tool_names by simp
qed

subsection \<open>Upstream failures\<close>

text \<open>
  C7, as the handler has it. When the HTTP call of a dispatch fails, the \<^verbatim>\<open>catch\<close> block
  builds the message \<^verbatim>\<open>App Store Connect API error: \<close> followed by a text, and the dispatch
  fails with an \<open>McpError\<close> (code \<open>InternalError\<close>) of that message.
  \<^item> The text is the first error detail of the response body, converted to a string, when
    the body has one: the body is an object, its \<^verbatim>\<open>errors\<close> is an array (or an object with
    the key \<^verbatim>\<open>0\<close>) whose first element is an object, and the \<^verbatim>\<open>detail\<close> of that element
    is there and is not \<^verbatim>\<open>null\<close>.
  \<^item> In every other case the text is the message of the transport error: the message of the
    failed transport when there is no response, and \<^verbatim>\<open>Request failed with status code N\<close>
    for a response whose status is not 2xx.
  \<^item> The conversion gives a string detail as it is, a number and a boolean as their text,
    an object as \<^verbatim>\<open>[object Object]\<close>, and an array as its elements joined by commas. It
    throws for an object that has a member of its own named \<^verbatim>\<open>toString\<close>, also inside an
    array; the dispatch then fails with that \<open>TypeError\<close> and carries neither the detail nor
    the message.
\<close>

theorem upstream_error_detail:
  assumes "fst (generateToken cfg w) = Inr token" and "switch token request = Inr (q, render)"
    and "axios_request w q = Inl err"
  shows "handler cfg w request
       = (Inl (case detail_or_message err of
                 None \<Rightarrow> TypeError
               | Some t \<Rightarrow> McpError InternalError (''App Store Connect API error: '' @ t)),
          [ReadFile (privateKeyPath cfg), HttpSent q])
     \<and> (\<forall>r kvs e es d. response err = Some r \<and> data r = JObj kvs
           \<and> map_of kvs ''errors'' = Some (JArr (JObj e # es))
           \<and> map_of e ''detail'' = Some d \<and> d \<noteq> JNull \<longrightarrow> detail_or_message err = toString d)
     \<and> (\<forall>r kvs obj e d. response err = Some r \<and> data r = JObj kvs
           \<and> map_of kvs ''errors'' = Some (JObj obj) \<and> map_of obj ''0'' = Some (JObj e)
           \<and> map_of e ''detail'' = Some d \<and> d \<noteq> JNull \<longrightarrow> detail_or_message err = toString d)
     \<and> (\<not> (\<exists>r kvs e es d. response err = Some r \<and> data r = JObj kvs
              \<and> map_of kvs ''errors'' = Some (JArr (JObj e # es))
              \<and> map_of e ''detail'' = Some d \<and> d \<noteq> JNull)
         \<and> \<not> (\<exists>r kvs obj e d. response err = Some r \<and> data r = JObj kvs
              \<and> map_of kvs ''errors'' = Some (JObj obj) \<and> map_of obj ''0'' = Some (JObj e)
              \<and> map_of e ''detail'' = Some d \<and> d \<noteq> JNull)
         \<longrightarrow> detail_or_message err = Some (message err))
     \<and> (\<forall>s. toString (JStr s) = Some s) \<and> (\<forall>t. toString (JNum t) = Some t)
     \<and> toString (JBool True) = Some ''true'' \<and> toString (JBool False) = Some ''false''
     \<and> (\<forall>kvs. toString (JObj kvs)
           = (if ''toString'' \<in> fst ` set kvs then None else Some ''[object Object]''))
     \<and> (\<forall>xs. toString (JArr xs)
           = (if \<exists>x\<in>set xs. x \<noteq> JNull \<and> toString x = None then None
              else Some (join '','' (map (\<lambda>x. if x = JNull then [] else the (toString x)) xs))))
     \<and> (\<forall>msg. adapter w q = NoReply msg \<longrightarrow> err = \<lparr>message = msg, response = None\<rparr>)
     \<and> (\<forall>r. adapter w q = Reply r \<longrightarrow>
           \<not> (200 \<le> status r \<and> status r < 300)
           \<and> err = \<lparr>message = ''Request failed with status code '' @ show_nat (status r),
                    response = Some r\<rparr>)"
proof -
  have run: "handler cfg w request
       = (Inl (case detail_or_message err of
                 None \<Rightarrow> TypeError
               | Some t \<Rightarrow> McpError InternalError (''App Store Connect API error: '' @ t)),
          [ReadFile (privateKeyPath cfg), HttpSent q])"
    using handler_rejected [OF assms] by (simp add: catch_axios_def)
  have in_array: "detail_or_message err = toString d"
    if "response err = Some r \<and> data r = JObj kvs
        \<and> map_of kvs ''errors'' = Some (JArr (JObj e # es))
        \<and> map_of e ''detail'' = Some d \<and> d \<noteq> JNull" for r kvs e es d
  proof -
    from that have "first_detail err = Some d"
      using first_detail_array [of err r kvs e es] by simp
    with that show ?thesis by (simp add: detail_or_message_found)
  qed
  have in_object: "detail_or_message err = toString d"
    if "response err = Some r \<and> data r = JObj kvs
        \<and> map_of kvs ''errors'' = Some (JObj obj) \<and> map_of obj ''0'' = Some (JObj e)
        \<and> map_of e ''detail'' = Some d \<and> d \<noteq> JNull" for r kvs obj e d
  proof -
    from that have "first_detail err = Some d"
      using first_detail_object [of err r kvs obj e] by simp
    with that show ?thesis by (simp add: detail_or_message_found)
  qed
  have missing: "detail_or_message err = Some (message err)"
    if "\<not> (\<exists>r kvs e es d. response err = Some r \<and> data r = JObj kvs
              \<and> map_of kvs ''errors'' = Some (JArr (JObj e # es))
              \<and> map_of e ''detail'' = Some d \<and> d \<noteq> JNull)
         \<and> \<not> (\<exists>r kvs obj e d. response err = Some r \<and> data r = JObj kvs
              \<and> map_of kvs ''errors'' = Some (JObj obj) \<and> map_of obj ''0'' = Some (JObj e)
              \<and> map_of e ''detail'' = Some d \<and> d \<noteq> JNull)"
  proof -
    from that first_detail_shapes [of err]
    have "first_detail err = None \<or> first_detail err = Some JNull"
      by (elim conjE disjE) simp_all
    then show ?thesis by (rule detail_or_message_missing)
  qed
  have strings: "\<forall>s. toString (JStr s) = Some s" "\<forall>t. toString (JNum t) = Some t"
    "toString (JBool True) = Some ''true''" "toString (JBool False) = Some ''false''"
    by simp_all
  have containers: "\<forall>kvs. toString (JObj kvs)
           = (if ''toString'' \<in> fst ` set kvs then None else Some ''[object Object]'')"
    "\<forall>xs. toString (JArr xs)
           = (if \<exists>x\<in>set xs. x \<noteq> JNull \<and> toString x = None then None
              else Some (join '','' (map (\<lambda>x. if x = JNull then [] else the (toString x)) xs)))"
    using toString_object toString_array by blast+
  have no_reply: "\<forall>msg. adapter w q = NoReply msg \<longrightarrow> err = \<lparr>message = msg, response = None\<rparr>"
    using axios_request_Inl [OF assms(3)] by simp
  have reply: "\<forall>r. adapter w q = Reply r \<longrightarrow>
           \<not> (200 \<le> status r \<and> status r < 300)
           \<and> err = \<lparr>message = ''Request failed with status code '' @ show_nat (status r),
                    response = Some r\<rparr>"
  proof (intro allI impI)
    fix r assume r: "adapter w q = Reply r"
    with assms(3) have "\<not> (200 \<le> status r \<and> status r < 300)"
      by (auto simp: axios_request_def)
    with r axios_request_Inl [OF assms(3)]
    show "\<not> (200 \<le> status r \<and> status r < 300)
           \<and> err = \<lparr>message = ''Request failed with status code '' @ show_nat (status r),
                    response = Some r\<rparr>"
      by simp
  qed
  show ?thesis
    apply (intro conjI)
               apply (rule run)
              apply (intro allI impI, erule in_array)
             apply (intro allI impI, erule in_object)
            apply (intro impI, erule missing)
           apply (rule strings)+
       apply (rule containers)+
     apply (rule no_reply)
    apply (rule reply)
    done
qed

text \<open>
  The 404 with the body \<^verbatim>\<open>{"errors":[{"detail":"Review not found"}]}\<close> carries
  \<^verbatim>\<open>Review not found\<close>, not the status text of the transport error; a numeric detail 42
  is carried as \<^verbatim>\<open>42\<close>; a 500 without a detail and a failed transport carry the message
  of the transport error.
\<close>

theorem upstream_error_detail_witness:
  "fst (generateToken example_config (example_world (Reply not_found_response)))
     = Inr example_token
   \<and> switch example_token
        \<lparr>name = ''get_customer_review_response'',
         arguments = Some (no_arguments\<lparr>reviewId := Some ''r1''\<rparr>)\<rparr>
     = Inr (\<lparr>verb = GET, url = ''/customerReviews/r1/response'',
             headers = [(''Authorization'', Bearer example_token)],
             params = Map.empty, body = None\<rparr>, relay_json)
   \<and> axios_request (example_world (Reply not_found_response))
        \<lparr>verb = GET, url = ''/customerReviews/r1/response'',
         headers = [(''Authorization'', Bearer example_token)],
         params = Map.empty, body = None\<rparr>
     = Inl \<lparr>message = ''Request failed with status code 404'',
            response = Some not_found_response\<rparr>
   \<and> handler example_config (example_world (Reply not_found_response))
        \<lparr>name = ''get_customer_review_response'',
         arguments = Some (no_arguments\<lparr>reviewId := Some ''r1''\<rparr>)\<rparr>
     = (Inl (McpError InternalError ''App Store Connect API error: Review not found''),
        [ReadFile ''/keys/AuthKey.p8'',
         HttpSent \<lparr>verb = GET, url = ''/customerReviews/r1/response'',
           headers = [(''Authorization'', Bearer example_token)],
           params = Map.empty, body = None\<rparr>])
   \<and> handler example_config (example_world (Reply numeric_detail_response))
        \<lparr>name = ''get_customer_review_response'',
         arguments = Some (no_arguments\<lparr>reviewId := Some ''r1''\<rparr>)\<rparr>
     = (Inl (McpError InternalError ''App Store Connect API error: 42''),
        [ReadFile ''/keys/AuthKey.p8'',
         HttpSent \<lparr>verb = GET, url = ''/customerReviews/r1/response'',
           headers = [(''Authorization'', Bearer example_token)],
           params = Map.empty, body = None\<rparr>])
   \<and> handler example_config (example_world (Reply (no_content_response\<lparr>status := 500\<rparr>)))
        \<lparr>name = ''get_customer_review_response'',
         arguments = Some (no_arguments\<lparr>reviewId := Some ''r1''\<rparr>)\<rparr>
     = (Inl (McpError InternalError
          ''App Store Connect API error: Request failed with status code 500''),
        [ReadFile ''/keys/AuthKey.p8'',
         HttpSent \<lparr>verb = GET, url = ''/customerReviews/r1/response'',
           headers = [(''Authorization'', Bearer example_token)],
           params = Map.empty, body = None\<rparr>])
   \<and> handler example_config (example_world (NoReply ''Network Error''))
        \<lparr>name = ''get_customer_review_response'',
         arguments = Some (no_arguments\<lparr>reviewId := Some ''r1''\<rparr>)\<rparr>
     = (Inl (McpError InternalError ''App Store Connect API error: Network Error''),
        [ReadFile ''/keys/AuthKey.p8'',
         HttpSent \<lparr>verb = GET, url = ''/customerReviews/r1/response'',
           headers = [(''Authorization'', Bearer example_token)],
           params = Map.empty, body = None\<rparr>])"
proof -
  let ?request = "\<lparr>name = ''get_customer_review_response'',
         arguments = Some (no_arguments\<lparr>reviewId := Some ''r1''\<rparr>)\<rparr>"
  let ?q = "\<lparr>verb = GET, url = ''/customerReviews/r1/response'',
         headers = [(''Authorization'', Bearer example_token)],
         params = Map.empty, body = None\<rparr>"
  note sw = get_response_example
  have rej1: "axios_request (example_world (Reply not_found_response)) ?q
      = Inl \<lparr>message = ''Request failed with status code 404'',
            response = Some not_found_response\<rparr>"
    using example_axios_rejected [of not_found_response ?q]
    by (simp add: not_found_response_def show_nat_404)
  have detail1: "detail_or_message \<lparr>message = ''Request failed with status code 404'',
            response = Some not_found_response\<rparr> = Some ''Review not found''"
    by (simp add: detail_or_message_def first_detail_def not_found_response_def)
  have run1: "handler example_config (example_world (Reply not_found_response)) ?request
     = (Inl (McpError InternalError ''App Store Connect API error: Review not found''),
        [ReadFile ''/keys/AuthKey.p8'', HttpSent ?q])"
    using upstream_error_detail [OF example_token_generated sw rej1] detail1
    by (simp add: example_config_def)
  have rej2: "axios_request (example_world (Reply numeric_detail_response)) ?q
      = Inl \<lparr>message = ''Request failed with status code 429'',
            response = Some numeric_detail_response\<rparr>"
    using example_axios_rejected [of numeric_detail_response ?q]
    by (simp add: numeric_detail_response_def show_nat_examples)
  have detail2: "detail_or_message \<lparr>message = ''Request failed with status code 429'',
            response = Some numeric_detail_response\<rparr> = Some ''42''"
    by (simp add: detail_or_message_def first_detail_def numeric_detail_response_def)
  have run2: "handler example_config (example_world (Reply numeric_detail_response)) ?request
     = (Inl (McpError InternalError ''App Store Connect API error: 42''),
        [ReadFile ''/keys/AuthKey.p8'', HttpSent ?q])"
    using upstream_error_detail [OF example_token_generated sw rej2] detail2
    by (simp add: example_config_def)
  have rej3: "axios_request (example_world (Reply (no_content_response\<lparr>status := 500\<rparr>))) ?q
      = Inl \<lparr>message = ''Request failed with status code 500'',
            response = Some (no_content_response\<lparr>status := 500\<rparr>)\<rparr>"
    using example_axios_rejected [of "no_content_response\<lparr>status := 500\<rparr>" ?q]
    by (simp add: show_nat_examples)
  have detail3: "detail_or_message \<lparr>message = ''Request failed with status code 500'',
            response = Some (no_content_response\<lparr>status := 500\<rparr>)\<rparr>
      = Some ''Request failed with status code 500''"
    by (simp add: detail_or_message_def first_detail_def no_content_response_def)
  have run3: "handler example_config (example_world (Reply (no_content_response\<lparr>status := 500\<rparr>)))
        ?request
     = (Inl (McpError InternalError
          ''App Store Connect API error: Request failed with status code 500''),
        [ReadFile ''/keys/AuthKey.p8'', HttpSent ?q])"
    using upstream_error_detail [OF example_token_generated sw rej3] detail3
    by (simp add: example_config_def)
  have detail4: "detail_or_message \<lparr>message = ''Network Error'', response = None\<rparr>
      = Some ''Network Error''"
    by (simp add: detail_or_message_def first_detail_def)
  have run4: "handler example_config (example_world (NoReply ''Network Error'')) ?request
     = (Inl (McpError InternalError ''App Store Connect API error: Network Error''),
        [ReadFile ''/keys/AuthKey.p8'', HttpSent ?q])"
    using upstream_error_detail [OF example_token_generated sw example_axios_no_reply] detail4
    by (simp add: example_config_def)
  show ?thesis
    apply (intro conjI)
          apply (rule example_token_generated)
         apply (rule sw)
        apply (rule rej1)
       apply (rule run1)
      apply (rule run2)
     apply (rule run3)
    apply (rule run4)
    done
qed

text \<open>
  The claim that every such failure carries the detail or the transport message fails for a
  detail that cannot be converted: for the body \<^verbatim>\<open>{"errors":[{"detail":{"toString":1}}]}\<close>
  the dispatch fails with the \<open>TypeError\<close> of the template literal.
\<close>

theorem upstream_error_detail_counterexample:
  "handler example_config (example_world (Reply odd_detail_response))
        \<lparr>name = ''get_customer_review_response'',
         arguments = Some (no_arguments\<lparr>reviewId := Some ''r1''\<rparr>)\<rparr>
     = (Inl TypeError,
        [ReadFile ''/keys/AuthKey.p8'',
         HttpSent \<lparr>verb = GET, url = ''/customerReviews/r1/response'',
           headers = [(''Authorization'', Bearer example_token)],
           params = Map.empty, body = None\<rparr>])"
proof -
  let ?q = "\<lparr>verb = GET, url = ''/customerReviews/r1/response'',
         headers = [(''Authorization'', Bearer example_token)],
         params = Map.empty, body = None\<rparr>"
  have rej: "axios_request (example_world (Reply odd_detail_response)) ?q
      = Inl \<lparr>message = ''Request failed with status code 500'',
            response = Some odd_detail_response\<rparr>"
    using example_axios_rejected [of odd_detail_response ?q]
    by (simp add: odd_detail_response_def show_nat_examples)
  have "catch_axios \<lparr>message = ''Request failed with status code 500'',
            response = Some odd_detail_response\<rparr> = TypeError"
    by (simp add: catch_axios_def detail_or_message_def first_detail_def
        odd_detail_response_def)
  with handler_rejected [OF example_token_generated get_response_example rej]
  show ?thesis
    by (simp add: example_config_def)
qed

subsection \<open>The text of a successful call\<close>

text \<open>
  C8, as the handler has it. For every tool except \<^verbatim>\<open>delete_customer_review_response\<close>:
  \<^item> when the token is generated, the switch prepares a request, and the HTTP adapter
    answers it with a response whose status is 2xx, the call returns one text item, which is
    \<^verbatim>\<open>JSON.stringify(response.data, null, 2)\<close>: the body as axios decoded it, printed with
    an indentation of two spaces; and it has read the key file and sent that one request;
  \<^item> a call succeeds in no other way: every result is that text of a 2xx response to the
    one request sent.

  The text is computed from the decoded body (\<open>data\<close>), not from the bytes the service sent
  (\<open>raw\<close>), so it is not in general those bytes.
\<close>

theorem success_text:
  "(\<forall>token q render r.
      fst (generateToken cfg w) = Inr token \<and> switch token request = Inr (q, render)
      \<and> name request \<noteq> ''delete_customer_review_response''
      \<and> adapter w q = Reply r \<and> 200 \<le> status r \<and> status r < 300 \<longrightarrow>
      handler cfg w request
        = (Inr \<lparr>content = [TextItem (JSON_stringify2 (data r))]\<rparr>,
           [ReadFile (privateKeyPath cfg), HttpSent q]))
   \<and> (\<forall>result.
      fst (handler cfg w request) = Inr result
      \<and> name request \<noteq> ''delete_customer_review_response'' \<longrightarrow>
      (\<exists>q r. sent (snd (handler cfg w request)) = [q] \<and> adapter w q = Reply r
         \<and> 200 \<le> status r \<and> status r < 300
         \<and> result = \<lparr>content = [TextItem (JSON_stringify2 (data r))]\<rparr>))"
proof (intro conjI allI impI)
  fix token q render r
  assume a: "fst (generateToken cfg w) = Inr token \<and> switch token request = Inr (q, render)
      \<and> name request \<noteq> ''delete_customer_review_response''
      \<and> adapter w q = Reply r \<and> 200 \<le> status r \<and> status r < 300"
  then have "render = relay_json"
    using switch_render [of token request q render] by simp
  moreover from a have "axios_request w q = Inr r"
    by (simp add: axios_request_def)
  ultimately show "handler cfg w request
        = (Inr \<lparr>content = [TextItem (JSON_stringify2 (data r))]\<rparr>,
           [ReadFile (privateKeyPath cfg), HttpSent q])"
    using a handler_resolved [of cfg w token request q render r]
    by (simp add: relay_json_def text_result_def)
next
  fix result
  assume a: "fst (handler cfg w request) = Inr result
      \<and> name request \<noteq> ''delete_customer_review_response''"
  show "\<exists>q r. sent (snd (handler cfg w request)) = [q] \<and> adapter w q = Reply r
         \<and> 200 \<le> status r \<and> status r < 300
         \<and> result = \<lparr>content = [TextItem (JSON_stringify2 (data r))]\<rparr>"
  proof (cases rule: handler_cases [of cfg w request])
    case (token_failure e)
    with a show ?thesis by simp
  next
    case (switch_failure token e)
    with a show ?thesis by simp
  next
    case (rejected token q render err)
    with a show ?thesis by simp
  next
    case (resolved token q render r)
    from resolved(2) a have "render = relay_json"
      using switch_render [of token request q render] by simp
    with resolved(4) a
    have "result = \<lparr>content = [TextItem (JSON_stringify2 (data r))]\<rparr>"
      by (simp add: relay_json_def text_result_def)
    with resolved(4) axios_request_Inr [OF resolved(3)] show ?thesis
      by simp
  qed
qed

text \<open>
  A run of the handler: \<^verbatim>\<open>list_customer_reviews\<close> for the app \<^verbatim>\<open>123\<close>, answered with a
  status 200 and a document of one review. The text has one member or element on each line,
  indented by two spaces for each level, \<^verbatim>\<open>": "\<close> after a key, the empty object and array
  as \<^verbatim>\<open>{}\<close> and \<^verbatim>\<open>[]\<close>, and the quote and the line feed of the review's body escaped.
\<close>

theorem success_text_witness:
  "fst (generateToken example_config (example_world (Reply review_response)))
     = Inr example_token
   \<and> switch example_token
        \<lparr>name = ''list_customer_reviews'',
         arguments = Some (no_arguments\<lparr>appId := Some ''123''\<rparr>)\<rparr>
     = Inr (\<lparr>verb = GET, url = ''/apps/123/customerReviews'',
         headers = [(''Authorization'', Bearer example_token)],
         params = review_query (no_arguments\<lparr>appId := Some ''123''\<rparr>) None, body = None\<rparr>,
         relay_json)
   \<and> status review_response = 200 \<and> data review_response = review_document
   \<and> handler example_config (example_world (Reply review_response))
        \<lparr>name = ''list_customer_reviews'',
         arguments = Some (no_arguments\<lparr>appId := Some ''123''\<rparr>)\<rparr>
     = (Inr \<lparr>content = [TextItem (text_lines
          [''{'',
           ''  '' @ quoted ''data'' @ '': ['',
           ''    {'',
           ''      '' @ quoted ''id'' @ '': '' @ quoted ''1'' @ '','',
           ''      '' @ quoted ''rating'' @ '': 5,'',
           ''      '' @ quoted ''published'' @ '': true,'',
           ''      '' @ quoted ''response'' @ '': null,'',
           ''      '' @ quoted ''body'' @ '': ''
              @ quoted (''a'' @ [CHR 0x5C, CHR 0x22] @ ''b'' @ [CHR 0x5C, CHR ''n'']),
           ''    }'',
           ''  ],'',
           ''  '' @ quoted ''links'' @ '': {},'',
           ''  '' @ quoted ''meta'' @ '': []'',
           ''}''])]\<rparr>,
        [ReadFile ''/keys/AuthKey.p8'',
         HttpSent \<lparr>verb = GET, url = ''/apps/123/customerReviews'',
           headers = [(''Authorization'', Bearer example_token)],
           params = review_query (no_arguments\<lparr>appId := Some ''123''\<rparr>) None,
           body = None\<rparr>])"
proof -
  let ?w = "example_world (Reply review_response)"
  let ?request = "\<lparr>name = ''list_customer_reviews'',
         arguments = Some (no_arguments\<lparr>appId := Some ''123''\<rparr>)\<rparr>"
  let ?q = "\<lparr>verb = GET, url = ''/apps/123/customerReviews'',
         headers = [(''Authorization'', Bearer example_token)],
         params = review_query (no_arguments\<lparr>appId := Some ''123''\<rparr>) None, body = None\<rparr>"
  have response: "status review_response = 200" "data review_response = review_document"
    by (simp_all add: review_response_def)
  have other: "name ?request \<noteq> ''delete_customer_review_response''"
    by simp
  have reply: "adapter ?w ?q = Reply review_response"
    by (simp add: example_world_def)
  have "fst (generateToken example_config ?w) = Inr example_token
      \<and> switch example_token ?request = Inr (?q, relay_json)
      \<and> name ?request \<noteq> ''delete_customer_review_response''
      \<and> adapter ?w ?q = Reply review_response
      \<and> 200 \<le> status review_response \<and> status review_response < 300"
    using example_token_generated reviews_example other reply response by simp
  with success_text [of example_config ?w ?request]
  have "handler example_config ?w ?request
        = (Inr \<lparr>content = [TextItem (JSON_stringify2 (data review_response))]\<rparr>,
           [ReadFile (privateKeyPath example_config), HttpSent ?q])"
    by blast
  then have run: "handler example_config ?w ?request
        = (Inr \<lparr>content = [TextItem (JSON_stringify2 review_document)]\<rparr>,
           [ReadFile ''/keys/AuthKey.p8'', HttpSent ?q])"
    by (simp add: response example_config_def)
  show ?thesis
    apply (intro conjI)
        apply (rule example_token_generated)
       apply (rule reviews_example)
      apply (rule response)
     apply (rule response)
    apply (simp only: run review_text)
    done
qed

text \<open>
  The claim as the specification words it (the exact bytes of the upstream body) fails on
  the smallest answer: the body \<^verbatim>\<open>{"data":[]}\<close> comes back as a text of three lines.
\<close>

theorem success_text_counterexample:
  "raw ok_response = ''{'' @ [CHR 0x22] @ ''data'' @ [CHR 0x22] @ '':[]}''
   \<and> JSON_stringify0 (data ok_response) = raw ok_response
   \<and> fst (handler example_config (example_world (Reply ok_response))
        \<lparr>name = ''list_apps'', arguments = None\<rparr>)
     = Inr \<lparr>content = [TextItem (''{'' @ [CHR 0x0A] @ ''  '' @ [CHR 0x22] @ ''data''
         @ [CHR 0x22] @ '': []'' @ [CHR 0x0A] @ ''}'')]\<rparr>
   \<and> fst (handler example_config (example_world (Reply ok_response))
        \<lparr>name = ''list_apps'', arguments = None\<rparr>)
     \<noteq> Inr \<lparr>content = [TextItem (raw ok_response)]\<rparr>"
proof -
  have shown: "fst (handler example_config (example_world (Reply ok_response))
        \<lparr>name = ''list_apps'', arguments = None\<rparr>)
     = Inr \<lparr>content = [TextItem (''{'' @ [CHR 0x0A] @ ''  '' @ [CHR 0x22] @ ''data''
         @ [CHR 0x22] @ '': []'' @ [CHR 0x0A] @ ''}'')]\<rparr>"
    by (simp add: list_apps_run relay_json_def text_result_def ok_text)
  have bytes: "raw ok_response = ''{'' @ [CHR 0x22] @ ''data'' @ [CHR 0x22] @ '':[]}''"
    by (simp add: ok_response_def)
  have differ: "\<lparr>content = [TextItem (''{'' @ [CHR 0x0A] @ ''  '' @ [CHR 0x22] @ ''data''
         @ [CHR 0x22] @ '': []'' @ [CHR 0x0A] @ ''}'')]\<rparr>
       \<noteq> \<lparr>content = [TextItem (raw ok_response)]\<rparr>"
    by (simp add: bytes)
  show ?thesis
    apply (intro conjI)
       apply (rule bytes)
      apply (rule ok_compact)
     apply (rule shown)
    apply (simp only: shown sum.inject)
    apply (rule differ)
    done
qed

subsection \<open>The confirmation of a deletion\<close>

text \<open>
  C9. For the tool \<^verbatim>\<open>delete_customer_review_response\<close>:
  \<^item> when the token is generated, the call gives a response identifier that is not the
    empty string, and the HTTP adapter answers the \<^verbatim>\<open>DELETE\<close> request for
    \<^verbatim>\<open>/customerReviewResponses/<responseId>\<close> with a 2xx status, the call returns one text
    item, \<^verbatim>\<open>Customer review response <responseId> deleted successfully.\<close>, whatever the body
    of the answer is; and it has read the key file and sent that one request;
  \<^item> a call succeeds in no other way: every result is that confirmation, for the identifier
    given, after one \<^verbatim>\<open>DELETE\<close> request that was answered with a 2xx status.
\<close>

theorem delete_confirmation:
  "(\<forall>token a rid r.
      fst (generateToken cfg w) = Inr token \<and> args = Some a
      \<and> responseId a = Some rid \<and> rid \<noteq> []
      \<and> adapter w \<lparr>verb = DELETE, url = ''/customerReviewResponses/'' @ rid,
            headers = [(''Authorization'', Bearer token)], params = Map.empty, body = None\<rparr>
          = Reply r
      \<and> 200 \<le> status r \<and> status r < 300 \<longrightarrow>
      handler cfg w \<lparr>name = ''delete_customer_review_response'', arguments = args\<rparr>
        = (Inr \<lparr>content = [TextItem
              (''Customer review response '' @ rid @ '' deleted successfully.'')]\<rparr>,
           [ReadFile (privateKeyPath cfg),
            HttpSent \<lparr>verb = DELETE, url = ''/customerReviewResponses/'' @ rid,
              headers = [(''Authorization'', Bearer token)], params = Map.empty,
              body = None\<rparr>]))
   \<and> (\<forall>result.
      fst (handler cfg w \<lparr>name = ''delete_customer_review_response'', arguments = args\<rparr>)
        = Inr result \<longrightarrow>
      (\<exists>a rid q r. args = Some a \<and> responseId a = Some rid \<and> rid \<noteq> []
        \<and> sent (snd (handler cfg w
              \<lparr>name = ''delete_customer_review_response'', arguments = args\<rparr>)) = [q]
        \<and> verb q = DELETE \<and> url q = ''/customerReviewResponses/'' @ rid
        \<and> adapter w q = Reply r \<and> 200 \<le> status r \<and> status r < 300
        \<and> result = \<lparr>content = [TextItem
              (''Customer review response '' @ rid @ '' deleted successfully.'')]\<rparr>))"
proof (intro conjI allI impI)
  fix token a rid r
  let ?q = "\<lparr>verb = DELETE, url = ''/customerReviewResponses/'' @ rid,
            headers = [(''Authorization'', Bearer token)], params = Map.empty, body = None\<rparr>"
  assume h: "fst (generateToken cfg w) = Inr token \<and> args = Some a
      \<and> responseId a = Some rid \<and> rid \<noteq> []
      \<and> adapter w ?q = Reply r
      \<and> 200 \<le> status r \<and> status r < 300"
  then have prepared:
    "switch token \<lparr>name = ''delete_customer_review_response'', arguments = args\<rparr>
      = Inr (?q, \<lambda>r. text_result
          (''Customer review response '' @ rid @ '' deleted successfully.''))"
    using delete_prepared [of a rid token] by simp
  from h have "axios_request w ?q = Inr r"
    by (simp add: axios_request_def)
  with h handler_resolved [OF _ prepared, of cfg w r]
  show "handler cfg w \<lparr>name = ''delete_customer_review_response'', arguments = args\<rparr>
        = (Inr \<lparr>content = [TextItem
              (''Customer review response '' @ rid @ '' deleted successfully.'')]\<rparr>,
           [ReadFile (privateKeyPath cfg), HttpSent ?q])"
    by (simp add: text_result_def)
next
  fix result
  assume h: "fst (handler cfg w
      \<lparr>name = ''delete_customer_review_response'', arguments = args\<rparr>) = Inr result"
  show "\<exists>a rid q r. args = Some a \<and> responseId a = Some rid \<and> rid \<noteq> []
        \<and> sent (snd (handler cfg w
              \<lparr>name = ''delete_customer_review_response'', arguments = args\<rparr>)) = [q]
        \<and> verb q = DELETE \<and> url q = ''/customerReviewResponses/'' @ rid
        \<and> adapter w q = Reply r \<and> 200 \<le> status r \<and> status r < 300
        \<and> result = \<lparr>content = [TextItem
              (''Customer review response '' @ rid @ '' deleted successfully.'')]\<rparr>"
  proof (cases rule: handler_cases
      [of cfg w "\<lparr>name = ''delete_customer_review_response'', arguments = args\<rparr>"])
    case (token_failure e)
    with h show ?thesis by simp
  next
    case (switch_failure token e)
    with h show ?thesis by simp
  next
    case (rejected token q render err)
    with h show ?thesis by simp
  next
    case (resolved token q render r)
    from resolved(2) have "call_delete_customer_review_response token args = Inr (q, render)"
      by (simp add: switch_eval)
    from call_delete_render [OF this] obtain a rid where a: "args = Some a"
      and rid: "responseId a = Some rid" "rid \<noteq> []"
      and q: "q = \<lparr>verb = DELETE, url = ''/customerReviewResponses/'' @ rid,
               headers = [(''Authorization'', Bearer token)], params = Map.empty, body = None\<rparr>"
      and render: "render = (\<lambda>r. text_result
              (''Customer review response '' @ rid @ '' deleted successfully.''))"
      by (elim exE conjE)
    from resolved(4) h render
    have result: "result = \<lparr>content = [TextItem
        (''Customer review response '' @ rid @ '' deleted successfully.'')]\<rparr>"
      by (simp add: text_result_def)
    from axios_request_Inr [OF resolved(3)] have reply: "adapter w q = Reply r"
      and ok: "200 \<le> status r" "status r < 300"
      by simp_all
    from q have request: "verb q = DELETE" "url q = ''/customerReviewResponses/'' @ rid"
      by simp_all
    show ?thesis
      apply (rule exI [of _ a], rule exI [of _ rid], rule exI [of _ q], rule exI [of _ r])
      apply (intro conjI)
               apply (rule a)
              apply (rule rid)
             apply (rule rid)
            apply (simp add: resolved(4))
           apply (rule request)
          apply (rule request)
         apply (rule reply)
        apply (rule ok)
       apply (rule ok)
      apply (rule result)
      done
  qed
qed

text \<open>
  A run of the handler: the deletion of the response \<^verbatim>\<open>resp1\<close>, answered with a status 204
  and an empty body.
\<close>

theorem delete_confirmation_witness:
  "fst (generateToken example_config (example_world (Reply no_content_response)))
     = Inr example_token
   \<and> responseId (no_arguments\<lparr>responseId := Some ''resp1''\<rparr>) = Some ''resp1''
   \<and> status no_content_response = 204 \<and> raw no_content_response = []
   \<and> handler example_config (example_world (Reply no_content_response))
        \<lparr>name = ''delete_customer_review_response'',
         arguments = Some (no_arguments\<lparr>responseId := Some ''resp1''\<rparr>)\<rparr>
     = (Inr \<lparr>content = [TextItem ''Customer review response resp1 deleted successfully.'']\<rparr>,
        [ReadFile ''/keys/AuthKey.p8'',
         HttpSent \<lparr>verb = DELETE, url = ''/customerReviewResponses/resp1'',
           headers = [(''Authorization'', Bearer example_token)],
           params = Map.empty, body = None\<rparr>])"
proof -
  let ?w = "example_world (Reply no_content_response)"
  let ?a = "no_arguments\<lparr>responseId := Some ''resp1''\<rparr>"
  let ?q = "\<lparr>verb = DELETE, url = ''/customerReviewResponses/'' @ ''resp1'',
           headers = [(''Authorization'', Bearer example_token)],
           params = Map.empty, body = None\<rparr>"
  have given: "responseId ?a = Some ''resp1''"
    by simp
  have response: "status no_content_response = 204" "raw no_content_response = []"
    by (simp_all add: no_content_response_def)
  have reply: "adapter ?w ?q = Reply no_content_response"
    by (simp add: example_world_def)
  have "fst (generateToken example_config ?w) = Inr example_token \<and> Some ?a = Some ?a
      \<and> responseId ?a = Some ''resp1'' \<and> ''resp1'' \<noteq> []
      \<and> adapter ?w ?q = Reply no_content_response
      \<and> 200 \<le> status no_content_response \<and> status no_content_response < 300"
    using example_token_generated reply response by simp
  with delete_confirmation [of example_config ?w "Some ?a"]
  have "handler example_config ?w
          \<lparr>name = ''delete_customer_review_response'', arguments = Some ?a\<rparr>
        = (Inr \<lparr>content = [TextItem
              (''Customer review response '' @ ''resp1'' @ '' deleted successfully.'')]\<rparr>,
           [ReadFile (privateKeyPath example_config), HttpSent ?q])"
    by blast
  then have run: "handler example_config ?w
          \<lparr>name = ''delete_customer_review_response'', arguments = Some ?a\<rparr>
     = (Inr \<lparr>content = [TextItem ''Customer review response resp1 deleted successfully.'']\<rparr>,
        [ReadFile ''/keys/AuthKey.p8'',
         HttpSent \<lparr>verb = DELETE, url = ''/customerReviewResponses/resp1'',
           headers = [(''Authorization'', Bearer example_token)],
           params = Map.empty, body = None\<rparr>])"
    by (simp add: example_config_def)
  show ?thesis
    apply (intro conjI)
        apply (rule example_token_generated)
       apply (rule given)
      apply (rule response)
     apply (rule response)
    apply (rule run)
    done
qed

subsection \<open>Empty strings\<close>

text \<open>
  C10, as the handler has it. For each of the five string arguments, a call that gives the
  empty string and the same call without the argument do the same, for every tool, every
  configuration and every world. When the argument is one that the schema of the tool
  declares required and the token was generated, the call fails with \<open>InvalidParams\<close>
  and the read of the key file is its only effect.
\<close>

theorem empty_string_as_omitted:
  "handler cfg w \<lparr>name = n, arguments = Some (with_string_argument k (Some []) a)\<rparr>
     = handler cfg w \<lparr>name = n, arguments = Some (with_string_argument k None a)\<rparr>
   \<and> (\<forall>t. t \<in> set tools \<and> k \<in> set (required_of t) \<and> \<not> isl (fst (generateToken cfg w)) \<longrightarrow>
        (\<exists>msg. handler cfg w
            \<lparr>name = tool_name t, arguments = Some (with_string_argument k (Some []) a)\<rparr>
          = (Inl (McpError InvalidParams msg), [ReadFile (privateKeyPath cfg)])))"
proof -
  have same: "handler cfg w \<lparr>name = n, arguments = Some (with_string_argument k (Some []) a)\<rparr>
     = handler cfg w \<lparr>name = n, arguments = Some (with_string_argument k None a)\<rparr>"
    unfolding handler_def switch_empty_as_omitted by (rule refl)
  have fails: "\<exists>msg. handler cfg w
            \<lparr>name = tool_name t, arguments = Some (with_string_argument k (Some []) a)\<rparr>
          = (Inl (McpError InvalidParams msg), [ReadFile (privateKeyPath cfg)])"
    if t: "t \<in> set tools" "k \<in> set (required_of t)"
      and tok: "\<not> isl (fst (generateToken cfg w))" for t
  proof -
    from tok obtain token where token: "fst (generateToken cfg w) = Inr token"
      by (cases "fst (generateToken cfg w)") simp_all
    note tested = required_tested [OF t]
    have "string_argument k (with_string_argument k (Some []) a) = Some []"
      by (rule string_argument_with [OF tested])
    then obtain msg where "switch token
        \<lparr>name = tool_name t, arguments = Some (with_string_argument k (Some []) a)\<rparr>
        = Inl (McpError InvalidParams msg)"
      using switch_falsy_argument [OF tested, of "with_string_argument k (Some []) a" token]
      by blast
    then show ?thesis
      using handler_switch_failure [OF token] by blast
  qed
  from same fails show ?thesis by blast
qed

theorem empty_string_as_omitted_witness:
  "tool_get_app_info \<in> set tools \<and> ''appId'' \<in> set (required_of tool_get_app_info)
   \<and> \<not> isl (fst (generateToken example_config (example_world reply_ok)))
   \<and> handler example_config (example_world reply_ok)
        \<lparr>name = ''get_app_info'',
         arguments = Some (with_string_argument ''appId'' (Some []) no_arguments)\<rparr>
      = handler example_config (example_world reply_ok)
        \<lparr>name = ''get_app_info'',
         arguments = Some (with_string_argument ''appId'' None no_arguments)\<rparr>
   \<and> handler example_config (example_world reply_ok)
        \<lparr>name = ''get_app_info'',
         arguments = Some (with_string_argument ''appId'' (Some []) no_arguments)\<rparr>
      = (Inl (McpError InvalidParams ''appId is required''), [ReadFile ''/keys/AuthKey.p8''])"
proof -
  have "switch example_token \<lparr>name = ''get_app_info'',
         arguments = Some (with_string_argument ''appId'' (Some []) no_arguments)\<rparr>
      = Inl (McpError InvalidParams ''appId is required'')"
    by (simp add: switch_def call_get_app_info_def truthy_string_def no_arguments_def
        with_string_argument_def)
  then have run: "handler example_config (example_world reply_ok)
        \<lparr>name = ''get_app_info'',
         arguments = Some (with_string_argument ''appId'' (Some []) no_arguments)\<rparr>
      = (Inl (McpError InvalidParams ''appId is required''), [ReadFile ''/keys/AuthKey.p8''])"
    by (rule example_handler_failure)
  from empty_string_as_omitted [of example_config "example_world reply_ok" "''get_app_info''"
      "''appId''" no_arguments]
  have "handler example_config (example_world reply_ok)
        \<lparr>name = ''get_app_info'',
         arguments = Some (with_string_argument ''appId'' (Some []) no_arguments)\<rparr>
      = handler example_config (example_world reply_ok)
        \<lparr>name = ''get_app_info'',
         arguments = Some (with_string_argument ''appId'' None no_arguments)\<rparr>"
    by blast
  with run example_tool show ?thesis
    by (simp add: example_generateToken)
qed

text \<open>
  Without the condition on the token the claim fails: with the key file missing, the call
  with an empty \<^verbatim>\<open>appId\<close> fails with the error of reading the file.
\<close>

theorem empty_string_as_omitted_counterexample:
  "handler example_config (world_without_key reply_ok)
       \<lparr>name = ''get_app_info'',
        arguments = Some (with_string_argument ''appId'' (Some []) no_arguments)\<rparr>
     = (Inl (FsError ''/keys/AuthKey.p8''), [ReadFile ''/keys/AuthKey.p8''])"
  by (rule without_key_handler)

end
